theory Spec2Isabelle
  imports Complex_Main
begin

section \<open>JavaScript values used by the services\<close>

text \<open>
  Strings are byte lists; the case conversions and \<open>trim\<close> are the ASCII part of
  \<open>String.prototype.toUpperCase\<close>, \<open>toLowerCase\<close> and \<open>trim\<close>. A JavaScript
  \<open>Number\<close> that holds money or time is an exact rational here, and a count is a
  natural number; the one computation whose result depends on IEEE rounding by more
  than the last place, the base reward, is done on doubles.
\<close>

definition toUpperCase_char :: "char \<Rightarrow> char" where
  "toUpperCase_char c =
     (case map_of (zip ''abcdefghijklmnopqrstuvwxyz'' ''ABCDEFGHIJKLMNOPQRSTUVWXYZ'') c of
        Some u \<Rightarrow> u
      | None \<Rightarrow> c)"

definition toUpperCase :: "string \<Rightarrow> string" where
  "toUpperCase s = map toUpperCase_char s"

definition toLowerCase_char :: "char \<Rightarrow> char" where
  "toLowerCase_char c =
     (case map_of (zip ''ABCDEFGHIJKLMNOPQRSTUVWXYZ'' ''abcdefghijklmnopqrstuvwxyz'') c of
        Some l \<Rightarrow> l
      | None \<Rightarrow> c)"

definition toLowerCase :: "string \<Rightarrow> string" where
  "toLowerCase s = map toLowerCase_char s"

definition isWhiteSpace :: "char \<Rightarrow> bool" where
  "isWhiteSpace c = (c \<in> set [CHR '' '', CHR 0x09, CHR 0x0A, CHR 0x0B, CHR 0x0C, CHR 0x0D])"

definition trim :: "string \<Rightarrow> string" where
  "trim s = rev (dropWhile isWhiteSpace (rev (dropWhile isWhiteSpace s)))"

definition digit_char :: "nat \<Rightarrow> char" where
  "digit_char d = ''0123456789'' ! d"

text \<open>The decimal rendering of a non-negative integer inside a template literal.\<close>

fun string_of_nat :: "nat \<Rightarrow> string" where
  "string_of_nat n =
     (if n < 10 then [digit_char n]
      else string_of_nat (n div 10) @ [digit_char (n mod 10)])"

declare string_of_nat.simps [simp del]

subsection \<open>IEEE doubles\<close>

text \<open>
  Where a product goes into \<open>Math.floor\<close> the rounding of the double arithmetic shows
  in the result, so that arithmetic is carried out on doubles. A double is a pair
  \<open>(m, e)\<close> of integers standing for \<open>m \<times> 2\<^sup>e\<close>. Every operation computes the exact
  result and rounds it to 53 significant bits, ties to the even mantissa. Subnormal
  numbers, infinities and \<open>NaN\<close> are out of the range of the values met here.
\<close>

type_synonym float64 = "int \<times> int"

definition pow2 :: "int \<Rightarrow> rat" where
  "pow2 e = (if 0 \<le> e then 2 ^ nat e else 1 / 2 ^ nat (- e))"

definition to_rat :: "float64 \<Rightarrow> rat" where
  "to_rat x = rat_of_int (fst x) * pow2 (snd x)"

fun bit_length :: "nat \<Rightarrow> nat" where
  "bit_length n = (if n = 0 then 0 else 1 + bit_length (n div 2))"

declare bit_length.simps [simp del]

definition fround :: "float64 \<Rightarrow> float64" where
  "fround x =
     (let m = fst x; e = snd x; n = bit_length (nat \<bar>m\<bar>)
      in if n \<le> 53 then (m, e)
         else (let k = n - 53;
                   q = \<bar>m\<bar> div 2 ^ k;
                   r = \<bar>m\<bar> mod 2 ^ k;
                   half = 2 ^ (k - 1);
                   q' = (if r < half then q else if half < r then q + 1
                         else if even q then q else q + 1)
               in (sgn m * q', e + int k)))"

text \<open>\<open>x * y\<close> on doubles.\<close>

definition fmul :: "float64 \<Rightarrow> float64 \<Rightarrow> float64" where
  "fmul x y = fround (fst x * fst y, snd x + snd y)"

text \<open>
  \<open>a / b\<close> for two non-negative integers, \<open>b\<close> positive: the quotient to 55 bits
  and more, with a last bit that records a remainder, then rounded.
\<close>

definition fdiv_nat :: "nat \<Rightarrow> nat \<Rightarrow> float64" where
  "fdiv_nat a b =
     (let s = 55 + bit_length b;
          q = (a * 2 ^ s) div b;
          r = (a * 2 ^ s) mod b
      in fround (int (2 * q + (if r = 0 then 0 else 1)), - int s - 1))"

text \<open>\<open>Math.floor\<close>.\<close>

definition ffloor :: "float64 \<Rightarrow> int" where
  "ffloor x = (if 0 \<le> snd x then fst x * 2 ^ nat (snd x) else fst x div 2 ^ nat (- snd x))"

subsection \<open>Arrays\<close>

text \<open>
  \<open>xs[i]\<close> on a JavaScript array: \<open>undefined\<close> outside the array (and for a
  negative index), which is \<open>None\<close>.
\<close>

definition at_index :: "'a list \<Rightarrow> int \<Rightarrow> 'a option" where
  "at_index xs i = (if 0 \<le> i \<and> i < int (length xs) then Some (xs ! nat i) else None)"

text \<open>
  \<open>xs[i] = v\<close> on an array of optional entries: an index past the end extends the
  array, the skipped positions staying empty.
\<close>

definition assign_index :: "'a option list \<Rightarrow> nat \<Rightarrow> 'a \<Rightarrow> 'a option list" where
  "assign_index xs i v =
     (if i < length xs then xs[i := Some v]
      else xs @ replicate (i - length xs) None @ [Some v])"

definition answer_at :: "'a option list \<Rightarrow> nat \<Rightarrow> 'a option" where
  "answer_at xs i = (if i < length xs then xs ! i else None)"


section \<open>The quiz session store (src/types, src/models)\<close>

record Question =
  question :: string
  options :: "string list"
  correctAnswer :: string
  explanation :: "string option"

datatype session_status = Active | Completed | Abandoned

record IQuizSession =
  user :: string
  category :: string
  questions :: "Question list"
  userAnswers :: "string option list"
  score :: nat
  totalQuestions :: nat
  timeStarted :: nat
  timeCompleted :: "nat option"
  status :: session_status
  paymentReference :: string
  rewardEarned :: rat
  difficulty :: string

datatype transaction_type = Debit | Credit

datatype transaction_status = TxPending | TxCompleted | TxFailed

record ITransaction =
  tx_user :: string
  tx_amount :: rat
  tx_type :: transaction_type
  tx_status :: transaction_status
  tx_description :: string
  tx_paymentMethod :: string
  tx_paymentReference :: string

record IUser =
  walletBalance :: rat

text \<open>
  The three collections the quiz service touches. Sessions and users are keyed by
  \<open>_id\<close>; the ledger keeps its insertion order.
\<close>

record db =
  users :: "string \<rightharpoonup> IUser"
  quizSessions :: "string \<rightharpoonup> IQuizSession"
  transactions :: "ITransaction list"

datatype error =
    PaymentNotVerified
  | QuizSessionNotFound
  | QuizSessionNotActive
  | InvalidQuestionIndex
  | ValidationError
  | DuplicateKeyError
  | GenerationFailed

subsection \<open>transaction.model.ts\<close>

text \<open>
  The validators the Transaction schema declares: the required paths, and the
  \<open>enum\<close> of \<open>paymentMethod\<close>. \<open>type\<close> and \<open>status\<close> are enums too; their
  datatypes hold only the permitted values.
\<close>

definition transaction_valid :: "ITransaction \<Rightarrow> bool" where
  "transaction_valid t =
     (tx_user t \<noteq> [] \<and> tx_description t \<noteq> []
      \<and> tx_paymentMethod t \<in> set [''flutterwave'', ''stripe'', ''momo'']
      \<and> tx_paymentReference t \<noteq> [])"

text \<open>
  \<open>new Transaction(...).save()\<close>: validation, then the insert, which the unique index
  on \<open>paymentReference\<close> refuses for a reference already in the ledger.
\<close>

definition Transaction_save :: "db \<Rightarrow> ITransaction \<Rightarrow> error + db" where
  "Transaction_save st t =
     (if \<not> transaction_valid t then Inl ValidationError
      else if tx_paymentReference t \<in> set (map tx_paymentReference (transactions st))
        then Inl DuplicateKeyError
      else Inr (st\<lparr>transactions := transactions st @ [t]\<rparr>))"

text \<open>
  \<open>Transaction.findOne({ paymentReference, user: userId, status: 'completed' })\<close>.
\<close>

definition Transaction_findOne :: "db \<Rightarrow> string \<Rightarrow> string \<Rightarrow> ITransaction option" where
  "Transaction_findOne st ref userId =
     find (\<lambda>t. tx_paymentReference t = ref \<and> tx_user t = userId \<and> tx_status t = TxCompleted)
       (transactions st)"

text \<open>
  \<open>User.findByIdAndUpdate(userId, { $inc: { walletBalance: reward } })\<close>: a user that
  does not exist is no error, and nothing is written.
\<close>

definition User_incWallet :: "db \<Rightarrow> string \<Rightarrow> rat \<Rightarrow> db" where
  "User_incWallet st userId amount =
     (case users st userId of
        None \<Rightarrow> st
      | Some u \<Rightarrow> st\<lparr>users := (users st)(userId \<mapsto> u\<lparr>walletBalance := walletBalance u + amount\<rparr>)\<rparr>)"


section \<open>quiz.service.ts\<close>

subsection \<open>startQuiz\<close>

text \<open>
  The validators of the QuizSession schema on the paths \<open>startQuiz\<close> sets: the required
  strings of the session and of each question sub-document.
\<close>

definition question_doc_valid :: "Question \<Rightarrow> bool" where
  "question_doc_valid q =
     (question q \<noteq> [] \<and> (\<forall>opt \<in> set (options q). opt \<noteq> []) \<and> correctAnswer q \<noteq> [])"

definition quizSession_valid :: "IQuizSession \<Rightarrow> bool" where
  "quizSession_valid s =
     (user s \<noteq> [] \<and> category s \<noteq> [] \<and> paymentReference s \<noteq> []
      \<and> (\<forall>q \<in> set (questions s). question_doc_valid q))"

text \<open>
  \<open>startQuiz\<close>. The outcome of \<open>aiService.generateQuestions(category)\<close> is the argument
  \<open>generated\<close>: the call is made only after the payment check, and it touches neither
  the ledger nor the sessions. \<open>newId\<close> is the \<open>_id\<close> the new document receives and
  \<open>now\<close> the clock (milliseconds) that fills the \<open>timeStarted\<close> default.
\<close>

definition startQuiz ::
  "db \<Rightarrow> string \<Rightarrow> nat \<Rightarrow> (error + Question list) \<Rightarrow> string \<Rightarrow> string \<Rightarrow> string
     \<Rightarrow> (error + string \<times> IQuizSession) \<times> db" where
  "startQuiz st newId now generated userId category' paymentReference' =
     (case Transaction_findOne st paymentReference' userId of
        None \<Rightarrow> (Inl PaymentNotVerified, st)
      | Some transaction \<Rightarrow>
          (case generated of
             Inl e \<Rightarrow> (Inl e, st)
           | Inr questions' \<Rightarrow>
               let quizSession = \<lparr>
                     user = userId,
                     category = category',
                     questions = questions',
                     userAnswers = [],
                     score = 0,
                     totalQuestions = length questions',
                     timeStarted = now,
                     timeCompleted = None,
                     status = Active,
                     paymentReference = paymentReference',
                     rewardEarned = 0,
                     difficulty = ''medium'' \<rparr>
               in if \<not> quizSession_valid quizSession then (Inl ValidationError, st)
                  else if quizSessions st newId \<noteq> None then (Inl DuplicateKeyError, st)
                  else (Inr (newId, quizSession),
                        st\<lparr>quizSessions := (quizSessions st)(newId \<mapsto> quizSession)\<rparr>)))"

subsection \<open>submitAnswer\<close>

record SubmitResult =
  isCorrect :: bool
  res_correctAnswer :: string
  res_explanation :: "string option"

definition submitAnswer ::
  "db \<Rightarrow> string \<Rightarrow> int \<Rightarrow> string \<Rightarrow> (error + SubmitResult) \<times> db" where
  "submitAnswer st sessionId questionIndex answer =
     (case quizSessions st sessionId of
        None \<Rightarrow> (Inl QuizSessionNotFound, st)
      | Some session \<Rightarrow>
          if status session \<noteq> Active then (Inl QuizSessionNotActive, st)
          else
            (case at_index (questions session) questionIndex of
               None \<Rightarrow> (Inl InvalidQuestionIndex, st)
             | Some q \<Rightarrow>
                 let session' = session\<lparr>userAnswers :=
                       assign_index (userAnswers session) (nat questionIndex) answer\<rparr>
                 in (Inr \<lparr> isCorrect = (answer = correctAnswer q),
                           res_correctAnswer = correctAnswer q,
                           res_explanation = explanation q \<rparr>,
                     st\<lparr>quizSessions := (quizSessions st)(sessionId \<mapsto> session')\<rparr>)))"

subsection \<open>completeQuiz\<close>

text \<open>
  The \<open>forEach\<close> over the questions: one point where the answer stored at the
  question's index is the question's \<open>correctAnswer\<close>.
\<close>

definition calcScore :: "Question list \<Rightarrow> string option list \<Rightarrow> nat" where
  "calcScore qs answers =
     length (filter (\<lambda>(index, q). answer_at answers index = Some (correctAnswer q))
                    (enumerate 0 qs))"

definition rewardRate :: rat where
  "rewardRate = 1 / 10"

record CompleteResult =
  res_score :: nat
  res_total :: nat
  res_reward :: rat
  res_percentage :: "rat option"

text \<open>
  \<open>completeQuiz\<close>, in the order of the source: the lookup by id and owner, the score,
  the reward, the wallet increment (awaited first), then \<open>session.save()\<close> and
  \<open>rewardTransaction.save()\<close> together. The two saves write different collections, so
  their order does not matter; a rejected save makes the call throw and undoes nothing.
  \<open>percentage\<close> is \<open>None\<close> where the source divides by a zero \<open>totalQuestions\<close>.
\<close>

definition completeQuiz ::
  "db \<Rightarrow> nat \<Rightarrow> string \<Rightarrow> string \<Rightarrow> (error + CompleteResult) \<times> db" where
  "completeQuiz st now sessionId userId =
     (case quizSessions st sessionId of
        None \<Rightarrow> (Inl QuizSessionNotFound, st)
      | Some session \<Rightarrow>
          if user session \<noteq> userId then (Inl QuizSessionNotFound, st)
          else
            let score' = calcScore (questions session) (userAnswers session);
                reward = rat_of_nat score' * rewardRate;
                session' = session\<lparr> score := score', status := Completed,
                                     timeCompleted := Some now, rewardEarned := reward \<rparr>;
                st1 = User_incWallet st userId reward;
                rewardTransaction = \<lparr>
                  tx_user = userId,
                  tx_amount = reward,
                  tx_type = Credit,
                  tx_status = TxCompleted,
                  tx_description = ''Quiz reward for '' @ category session,
                  tx_paymentMethod = ''system'',
                  tx_paymentReference = ''reward_'' @ sessionId \<rparr>;
                st2 = st1\<lparr>quizSessions := (quizSessions st1)(sessionId \<mapsto> session')\<rparr>
            in (case Transaction_save st2 rewardTransaction of
                  Inl e \<Rightarrow> (Inl e, st2)
                | Inr st3 \<Rightarrow>
                    (Inr \<lparr> res_score = score',
                           res_total = totalQuestions session,
                           res_reward = reward,
                           res_percentage =
                             (if totalQuestions session = 0 then None
                              else Some (rat_of_nat score' / rat_of_nat (totalQuestions session) * 100)) \<rparr>,
                     st3)))"


section \<open>quiz.controller.ts\<close>

definition validateAnswerInput :: "string \<Rightarrow> int option \<Rightarrow> string \<Rightarrow> string option" where
  "validateAnswerInput sessionId questionIndex answer =
     (if sessionId = [] then Some ''Session ID is required''
      else
        (case questionIndex of
           None \<Rightarrow> Some ''Invalid question index''
         | Some i \<Rightarrow>
             if i < 0 then Some ''Invalid question index''
             else if answer = [] \<or> toUpperCase answer \<notin> set [''A'', ''B'', ''C'', ''D'']
               then Some ''Answer must be A, B, C, or D''
             else None))"

definition error_message :: "error \<Rightarrow> string" where
  "error_message e =
     (case e of
        PaymentNotVerified \<Rightarrow> ''Payment not verified''
      | QuizSessionNotFound \<Rightarrow> ''Quiz session not found''
      | QuizSessionNotActive \<Rightarrow> ''Quiz session is not active''
      | InvalidQuestionIndex \<Rightarrow> ''Invalid question index''
      | ValidationError \<Rightarrow> ''Validation failed''
      | DuplicateKeyError \<Rightarrow> ''E11000 duplicate key error''
      | GenerationFailed \<Rightarrow> ''Failed to generate questions'')"

record QuestionView =
  v_question :: string
  v_options :: "string list"
  v_userAnswer :: "string option"
  v_isAnswered :: bool
  v_correctAnswer :: "string option"
  v_explanation :: "string option option"
  v_isCorrect :: "bool option"

record SessionView =
  v_id :: string
  v_category :: string
  v_difficulty :: string
  v_totalQuestions :: nat
  v_currentQuestion :: nat
  v_score :: nat
  v_status :: session_status
  v_timeStarted :: nat
  v_timeCompleted :: "nat option"
  v_rewardEarned :: rat
  v_questions :: "QuestionView list"

definition sanitizeQuizSession :: "string \<Rightarrow> IQuizSession \<Rightarrow> SessionView" where
  "sanitizeQuizSession sessionId quizSession =
     (let hidden = map (\<lambda>(index, q).
              \<lparr> v_question = question q,
                v_options = options q,
                v_userAnswer = answer_at (userAnswers quizSession) index,
                v_isAnswered = (index < length (userAnswers quizSession)),
                v_correctAnswer = None,
                v_explanation = None,
                v_isCorrect = None \<rparr>)
            (enumerate 0 (questions quizSession));
          sanitized = \<lparr>
            v_id = sessionId,
            v_category = category quizSession,
            v_difficulty = difficulty quizSession,
            v_totalQuestions = totalQuestions quizSession,
            v_currentQuestion = length (userAnswers quizSession),
            v_score = score quizSession,
            v_status = status quizSession,
            v_timeStarted = timeStarted quizSession,
            v_timeCompleted = timeCompleted quizSession,
            v_rewardEarned = rewardEarned quizSession,
            v_questions = hidden \<rparr>
      in if status quizSession = Completed
         then sanitized\<lparr> v_questions := map (\<lambda>(index, q).
                (hidden ! index)\<lparr>
                   v_correctAnswer := Some (correctAnswer q),
                   v_explanation := Some (explanation q),
                   v_isCorrect := Some (answer_at (userAnswers quizSession) index
                                          = Some (correctAnswer q)) \<rparr>)
              (enumerate 0 (questions quizSession)) \<rparr>
         else sanitized)"

definition getQuizSession :: "db \<Rightarrow> string \<Rightarrow> string \<Rightarrow> (nat \<times> string) + SessionView" where
  "getQuizSession st sessionId userId =
     (case quizSessions st sessionId of
        None \<Rightarrow> Inl (404, ''Quiz session not found'')
      | Some quizSession \<Rightarrow>
          if user quizSession \<noteq> userId then Inl (404, ''Quiz session not found'')
          else Inr (sanitizeQuizSession sessionId quizSession))"

record SubmitResponse =
  resp_isCorrect :: bool
  resp_correctAnswer :: string
  resp_explanation :: "string option"
  resp_nextQuestionIndex :: int

definition submitAnswer_handler ::
  "db \<Rightarrow> string \<Rightarrow> int option \<Rightarrow> string \<Rightarrow> ((nat \<times> string) + SubmitResponse) \<times> db" where
  "submitAnswer_handler st sessionId questionIndex answer =
     (case validateAnswerInput sessionId questionIndex answer of
        Some validationError \<Rightarrow> (Inl (400, validationError), st)
      | None \<Rightarrow>
          (case questionIndex of
             None \<Rightarrow> (Inl (400, ''Invalid question index''), st)
           | Some i \<Rightarrow>
               (case submitAnswer st sessionId i answer of
                  (Inl e, st') \<Rightarrow> (Inl (500, error_message e), st')
                | (Inr result, st') \<Rightarrow>
                    (Inr \<lparr> resp_isCorrect = isCorrect result,
                           resp_correctAnswer = res_correctAnswer result,
                           resp_explanation = res_explanation result,
                           resp_nextQuestionIndex = i + 1 \<rparr>, st'))))"


section \<open>The JavaScript game store (models/User.js, GameSession.js, Transaction.js)\<close>

record GameQuestion =
  gq_question :: string
  gq_options :: "string list"
  gq_correctAnswer :: string
  gq_userAnswer :: "string option"
  gq_isCorrect :: bool
  gq_points :: nat

record GameSession =
  gs_id :: string
  gs_userId :: string
  gs_category :: string
  gs_questions :: "GameQuestion list"
  gs_totalScore :: rat
  gs_totalPoints :: rat
  gs_timeSpent :: rat
  gs_status :: session_status
  gs_createdAt :: nat

record GameUser =
  gu_walletBalance :: rat
  gu_totalEarnings :: rat
  gu_gamesPlayed :: nat

record GameTransaction =
  gt_userId :: string
  gt_type :: string
  gt_amount :: rat
  gt_currency :: string
  gt_status :: string
  gt_paymentMethod :: string
  gt_reference :: string
  gt_description :: string

record game_db =
  g_users :: "string \<rightharpoonup> GameUser"
  g_sessions :: "GameSession list"
  g_transactions :: "GameTransaction list"

datatype reward_error = RewardValidationError | RewardDuplicateKeyError | RewardCastError

text \<open>The validators of models/Transaction.js: required paths and the three enums.\<close>

definition gameTransaction_valid :: "GameTransaction \<Rightarrow> bool" where
  "gameTransaction_valid t =
     (gt_userId t \<noteq> []
      \<and> gt_type t \<in> set [''payment'', ''payout'', ''refund'', ''reward'']
      \<and> gt_status t \<in> set [''pending'', ''success'', ''failed'', ''cancelled'']
      \<and> gt_paymentMethod t \<in> set [''flutterwave'', ''stripe'', ''momo'', ''wallet''])"

text \<open>\<open>Transaction.create\<close>: validation, then the insert under the unique index on \<open>reference\<close>.\<close>

definition GameTransaction_create :: "game_db \<Rightarrow> GameTransaction \<Rightarrow> reward_error + game_db" where
  "GameTransaction_create st t =
     (if \<not> gameTransaction_valid t then Inl RewardValidationError
      else if gt_reference t \<in> set (map gt_reference (g_transactions st))
        then Inl RewardDuplicateKeyError
      else Inr (st\<lparr>g_transactions := g_transactions st @ [t]\<rparr>))"

section \<open>services/RewardService.js\<close>

text \<open>
  \<open>Math.floor(baseAmount * accuracy * 100) / 100\<close>, on doubles; \<open>accuracy\<close> is the
  double the caller's division gave.
\<close>

definition calculateBaseReward :: "float64 \<Rightarrow> nat \<Rightarrow> rat" where
  "calculateBaseReward accuracy totalQuestions' =
     (let baseAmount = totalQuestions' * 2
      in to_rat (fdiv_nat (nat (ffloor (fmul (fmul (int baseAmount, 0) accuracy) (100, 0)))) 100))"

text \<open>
  \<open>(timeSaved / 60) * 0.5\<close>. The quotient, the bonus and the sums of amounts are
  taken exactly; no \<open>Math.floor\<close> follows them, and in the scenario settled below
  each of these values (2.5, 1.25, 15.25) is a double, so there the doubles of the code
  are these values.
\<close>

definition calculateTimeBonus :: "rat \<Rightarrow> nat \<Rightarrow> rat" where
  "calculateTimeBonus timeSpent totalQuestions' =
     (let avgTimePerQuestion = 30;
          expectedTime = rat_of_nat (totalQuestions' * avgTimePerQuestion)
      in if timeSpent < expectedTime
         then (let timeSaved = expectedTime - timeSpent in (timeSaved / 60) * (1 / 2))
         else 0)"

text \<open>
  The filter of \<open>GameSession.countDocuments\<close>: a session of the user, completed, with
  \<open>totalScore \<ge> 0.7\<close>, created in the last 24 hours; \<open>now\<close> is \<open>Date.now()\<close>. The
  bound is the double that the literal \<open>0.7\<close> denotes.
\<close>

definition isRecentWin :: "nat \<Rightarrow> string \<Rightarrow> GameSession \<Rightarrow> bool" where
  "isRecentWin now userId g =
     (gs_userId g = userId \<and> gs_status g = Completed
      \<and> to_rat (fdiv_nat 7 10) \<le> gs_totalScore g
      \<and> int now - 24 * 60 * 60 * 1000 \<le> int (gs_createdAt g))"

definition recentWins :: "game_db \<Rightarrow> nat \<Rightarrow> string \<Rightarrow> nat" where
  "recentWins st now userId = length (filter (isRecentWin now userId) (g_sessions st))"

definition calculateStreakBonus :: "game_db \<Rightarrow> nat \<Rightarrow> string \<Rightarrow> rat" where
  "calculateStreakBonus st now userId = rat_of_nat (recentWins st now userId * 2)"

text \<open>
  \<open>distributeReward\<close>: the wallet update and the ledger insert run inside one database
  transaction. A failure aborts it, the store is the one before the call, and the error
  is thrown again.
\<close>

definition distributeReward ::
  "game_db \<Rightarrow> string \<Rightarrow> rat \<Rightarrow> string \<Rightarrow> (reward_error + unit) \<times> game_db" where
  "distributeReward st userId amount gameSessionId =
     (let st1 = (case g_users st userId of
                   None \<Rightarrow> st
                 | Some u \<Rightarrow> st\<lparr>g_users := (g_users st)(userId \<mapsto>
                     u\<lparr> gu_walletBalance := gu_walletBalance u + amount,
                        gu_totalEarnings := gu_totalEarnings u + amount,
                        gu_gamesPlayed := gu_gamesPlayed u + 1 \<rparr>)\<rparr>)
      in case GameTransaction_create st1
             \<lparr> gt_userId = userId,
               gt_type = ''reward'',
               gt_amount = amount,
               gt_currency = ''USD'',
               gt_status = ''success'',
               gt_paymentMethod = ''wallet'',
               gt_reference = ''REWARD_'' @ gameSessionId,
               gt_description = ''Quiz reward for session '' @ gameSessionId \<rparr> of
           Inl e \<Rightarrow> (Inl e, st)
         | Inr st2 \<Rightarrow> (Inr (), st2))"

text \<open>
  \<open>calculateReward\<close>. With no question the accuracy is \<open>0/0\<close>, the reward is not a
  number, and the first write of \<open>distributeReward\<close> is refused when the amount is cast.
\<close>

definition calculateReward :: "game_db \<Rightarrow> nat \<Rightarrow> GameSession \<Rightarrow> (reward_error + rat) \<times> game_db" where
  "calculateReward st now gameSession =
     (let correctAnswers = length (filter gq_isCorrect (gs_questions gameSession));
          totalQuestions' = length (gs_questions gameSession)
      in if totalQuestions' = 0 then (Inl RewardCastError, st)
         else
           let accuracy = fdiv_nat correctAnswers totalQuestions';
               baseReward = calculateBaseReward accuracy totalQuestions';
               timeBonus = calculateTimeBonus (gs_timeSpent gameSession) totalQuestions';
               streakBonus = calculateStreakBonus st now (gs_userId gameSession);
               totalReward = baseReward + timeBonus + streakBonus
           in case distributeReward st (gs_userId gameSession) totalReward (gs_id gameSession) of
                (Inl e, st') \<Rightarrow> (Inl e, st')
              | (Inr _, st') \<Rightarrow> (Inr totalReward, st'))"


section \<open>The durable question cache (aiQuestion.model.ts)\<close>

record IQuestion =
  iq_question :: string
  iq_options :: "string list"
  iq_correctAnswer :: string
  iq_explanation :: "string option"
  iq_topic :: "string option"
  iq_timeLimit :: "rat option"

text \<open>The metrics of one completion; \<open>tokensUsed\<close> is the token count the API reports.\<close>

record AIResponseMetrics =
  m_tokensUsed :: int
  m_responseTime :: rat
  m_cost :: rat
  m_model :: string

text \<open>
  A document of the collection. Times are milliseconds since the epoch. \<open>cacheKey\<close>
  and \<open>expiresAt\<close> are required by the schema and have no default: a document that has
  just been constructed without them has \<open>cacheKey = []\<close> (\<open>required\<close> refuses the absent
  and the empty string alike) and \<open>expiresAt = None\<close>. \<open>createdAt\<close> and \<open>updatedAt\<close>
  are the stamps of the \<open>timestamps\<close> option: both are written when the document is
  saved, and \<open>updatedAt\<close> again by every update (\<open>updateMany\<close>, \<open>findOneAndUpdate\<close>).
\<close>

record IAIQuestion =
  ai_category :: string
  ai_difficulty :: string
  ai_questions :: "IQuestion list"
  aiModel :: string
  aiPrompt :: string
  tokensUsed :: int
  cost :: rat
  cacheKey :: string
  isActive :: bool
  usageCount :: nat
  lastUsed :: nat
  expiresAt :: "nat option"
  meta_responseTime :: rat
  meta_questionCount :: nat
  createdAt :: nat
  updatedAt :: nat

type_synonym cache_store = "IAIQuestion list"

datatype cache_error = FailedToCacheQuestions

subsection \<open>Setters and validators of the two schemas\<close>

text \<open>
  The setters the question sub-schema declares (\<open>trim\<close>, \<open>uppercase\<close>) and the
  default of \<open>timeLimit\<close>, applied when the document is built.
\<close>

definition cast_question :: "IQuestion \<Rightarrow> IQuestion" where
  "cast_question q = q\<lparr>
     iq_question := trim (iq_question q),
     iq_correctAnswer := trim (toUpperCase (iq_correctAnswer q)),
     iq_topic := map_option trim (iq_topic q),
     iq_timeLimit := Some (case iq_timeLimit q of None \<Rightarrow> 30 | Some t \<Rightarrow> t) \<rparr>"

definition options_validator :: "string list \<Rightarrow> bool" where
  "options_validator opts = (length opts = 4 \<and> (\<forall>opt \<in> set opts. length opt > 0))"

definition questionSchema_valid :: "IQuestion \<Rightarrow> bool" where
  "questionSchema_valid q =
     (iq_question q \<noteq> [] \<and> 10 \<le> length (iq_question q) \<and> length (iq_question q) \<le> 500
      \<and> options_validator (iq_options q)
      \<and> iq_correctAnswer q \<in> set [''A'', ''B'', ''C'', ''D'']
      \<and> (case iq_explanation q of None \<Rightarrow> True | Some e \<Rightarrow> length e \<le> 1000)
      \<and> (case iq_timeLimit q of None \<Rightarrow> True | Some t \<Rightarrow> 10 \<le> t \<and> t \<le> 120))"

definition questions_validator :: "IQuestion list \<Rightarrow> bool" where
  "questions_validator qs = (length qs > 0 \<and> length qs \<le> 20)"

definition categories :: "string list" where
  "categories =
     [''science'', ''technology'', ''history'', ''geography'',
      ''sports'', ''entertainment'', ''politics'', ''art'',
      ''literature'', ''mathematics'', ''biology'', ''physics'',
      ''chemistry'', ''general-knowledge'', ''programming'']"

definition difficulties :: "string list" where
  "difficulties = [''easy'', ''medium'', ''hard'']"

text \<open>The validators of the document, the two required fields without a default included.\<close>

definition aiQuestionSchema_valid :: "IAIQuestion \<Rightarrow> bool" where
  "aiQuestionSchema_valid d =
     (ai_category d \<in> set categories
      \<and> ai_difficulty d \<in> set difficulties
      \<and> questions_validator (ai_questions d)
      \<and> (\<forall>q \<in> set (ai_questions d). questionSchema_valid q)
      \<and> aiModel d \<in> set [''gpt-3.5-turbo'', ''gpt-4'', ''gpt-4-turbo'']
      \<and> aiPrompt d \<noteq> [] \<and> length (aiPrompt d) \<le> 5000
      \<and> 0 \<le> tokensUsed d
      \<and> 0 \<le> cost d
      \<and> cacheKey d \<noteq> []
      \<and> expiresAt d \<noteq> None)"

subsection \<open>The pre-save hooks\<close>

definition hourBucket :: "nat \<Rightarrow> nat" where
  "hourBucket now = now div (1000 * 60 * 60)"

definition derive_cacheKey :: "string \<Rightarrow> string \<Rightarrow> nat \<Rightarrow> string" where
  "derive_cacheKey category' difficulty' now =
     ''ai_questions:'' @ category' @ '':'' @ difficulty' @ '':'' @ string_of_nat (hourBucket now)"

text \<open>\<open>String.prototype.includes\<close>.\<close>

fun string_includes :: "string \<Rightarrow> string \<Rightarrow> bool" where
  "string_includes [] sub = (sub = [])"
| "string_includes (c # cs) sub = (take (length sub) (c # cs) = sub \<or> string_includes cs sub)"

text \<open>
  The two hooks on a new document: the cache key from category, difficulty and the
  hour of the clock, the expiry, and the cost from the tokens (a product of doubles).
  The expiry is set with \<open>setHours(getHours() + 24)\<close>, which is the same wall-clock time
  on the next day in the zone of the server: \<open>offsetChange\<close> is the change of the UTC
  offset of that zone between the two instants, in milliseconds. It is 0 unless a
  daylight-saving switch falls into the interval, and then the entry lives 23 or 25 hours.
\<close>

definition preSave :: "nat \<Rightarrow> int \<Rightarrow> IAIQuestion \<Rightarrow> IAIQuestion" where
  "preSave now offsetChange d =
     (let costPerToken = (if string_includes (aiModel d) ''gpt-4''
                          then fdiv_nat 3 100000 else fdiv_nat 2 1000000)
      in d\<lparr> cacheKey := derive_cacheKey (ai_category d) (ai_difficulty d) now,
             expiresAt := Some (nat (int now + 24 * 60 * 60 * 1000 - offsetChange)),
             cost := to_rat (fmul (tokensUsed d, 0) costPerToken) \<rparr>)"

subsection \<open>Saving a new document\<close>

text \<open>
  \<open>save()\<close> on a new document. The validation is the first of the pre-save steps:
  it runs on the document as it was constructed, before the hooks of the schema, and a
  failure ends the save with nothing written. Then the hooks fill the derived fields
  and the stamps are set, and the insert is subject to the unique index on \<open>cacheKey\<close>.
  The result is the saved document and the store with that document added.
\<close>

definition AIQuestion_save ::
  "cache_store \<Rightarrow> nat \<Rightarrow> int \<Rightarrow> IAIQuestion \<Rightarrow> error + (IAIQuestion \<times> cache_store)" where
  "AIQuestion_save store now offsetChange d =
     (if \<not> aiQuestionSchema_valid d then Inl ValidationError
      else (let saved = (preSave now offsetChange d)\<lparr>createdAt := now, updatedAt := now\<rparr>
            in if cacheKey saved \<in> set (map cacheKey store) then Inl DuplicateKeyError
               else Inr (saved, store @ [saved])))"



section \<open>aiQuestion.service.ts\<close>

text \<open>
  \<open>cacheQuestions\<close>: the document is constructed from the arguments (setters and
  defaults applied, no \<open>cacheKey\<close> and no \<open>expiresAt\<close> given, the stamps not yet
  written) and saved. Whatever the save throws, the \<open>catch\<close> answers
  \<open>Failed to cache questions\<close>.
\<close>

definition cacheQuestions ::
  "cache_store \<Rightarrow> nat \<Rightarrow> int \<Rightarrow> IQuestion list \<Rightarrow> string \<Rightarrow> string \<Rightarrow> AIResponseMetrics \<Rightarrow> string
     \<Rightarrow> (cache_error + string) \<times> cache_store" where
  "cacheQuestions store now offsetChange questions' category' difficulty' metrics aiPrompt' =
     (let aiQuestion = \<lparr>
            ai_category = trim (toLowerCase category'),
            ai_difficulty = toLowerCase difficulty',
            ai_questions = map cast_question questions',
            aiModel = m_model metrics,
            aiPrompt = aiPrompt',
            tokensUsed = m_tokensUsed metrics,
            cost = m_cost metrics,
            cacheKey = [],
            isActive = True,
            usageCount = 0,
            lastUsed = now,
            expiresAt = None,
            meta_responseTime = m_responseTime metrics,
            meta_questionCount = length questions',
            createdAt = 0,
            updatedAt = 0 \<rparr>
      in case AIQuestion_save store now offsetChange aiQuestion of
           Inl e \<Rightarrow> (Inl FailedToCacheQuestions, store)
         | Inr (saved, store') \<Rightarrow> (Inr (cacheKey saved), store'))"

text \<open>
  The most recent of the candidates, by \<open>createdAt\<close>; among equally recent ones the
  first in the order of the store.
\<close>

fun latest :: "IAIQuestion list \<Rightarrow> IAIQuestion option" where
  "latest [] = None"
| "latest (d # ds) =
     (case latest ds of
        None \<Rightarrow> Some d
      | Some m \<Rightarrow> if createdAt d < createdAt m then Some m else Some d)"

text \<open>The static \<open>incrementUsage\<close>: \<open>findOneAndUpdate\<close> changes the first match only.\<close>

fun incrementUsage :: "cache_store \<Rightarrow> nat \<Rightarrow> string \<Rightarrow> cache_store" where
  "incrementUsage [] now key = []"
| "incrementUsage (d # ds) now key =
     (if cacheKey d = key
      then d\<lparr>usageCount := usageCount d + 1, lastUsed := now, updatedAt := now\<rparr> # ds
      else d # incrementUsage ds now key)"

text \<open>
  \<open>getCachedQuestions\<close>. The filter is cast by the schema, whose \<open>trim\<close> setter applies
  to the category of the query as well.
\<close>

definition getCachedQuestions ::
  "cache_store \<Rightarrow> nat \<Rightarrow> string \<Rightarrow> string \<Rightarrow> IQuestion list option \<times> cache_store" where
  "getCachedQuestions store now category' difficulty' =
     (case latest (filter (\<lambda>d. ai_category d = trim (toLowerCase category')
                               \<and> ai_difficulty d = toLowerCase difficulty'
                               \<and> isActive d) store) of
        None \<Rightarrow> (None, store)
      | Some cached \<Rightarrow> (Some (ai_questions cached), incrementUsage store now (cacheKey cached)))"





section \<open>ai.service.ts\<close>

text \<open>
  \<open>generateQuestions\<close>, the tiered lookup. The two outside services are inputs:
  \<open>redisCached\<close> is what the fast tier returns for the request (parsed), \<open>completion\<close>
  is the parsed answer of the model with its token count, \<open>None\<close> when the call or the
  parsing throws, and \<open>prompt\<close> is the text of \<open>buildPrompt\<close>. \<open>now\<close> is the clock
  before the model is called and \<open>now'\<close> the clock after. The write to the fast tier
  comes after \<open>cacheQuestions\<close> and leaves the durable store as it is. Every failure
  after the lookups is thrown as \<open>Failed to generate questions\<close>.
\<close>

definition generateQuestions ::
  "cache_store \<Rightarrow> nat \<Rightarrow> nat \<Rightarrow> int \<Rightarrow> IQuestion list option \<Rightarrow> (IQuestion list \<times> int) option
     \<Rightarrow> string \<Rightarrow> string \<Rightarrow> string \<Rightarrow> nat \<Rightarrow> (error + IQuestion list) \<times> cache_store" where
  "generateQuestions store now now' offsetChange redisCached completion prompt category' difficulty'
       count' =
     (case getCachedQuestions store now category' difficulty' of
        (cachedQuestions, store1) \<Rightarrow>
          let generate =
                (case completion of
                   None \<Rightarrow> (Inl GenerationFailed, store1)
                 | Some (questions', tokens) \<Rightarrow>
                     (case cacheQuestions store1 now' offsetChange questions' category' difficulty'
                             \<lparr> m_tokensUsed = tokens,
                               m_responseTime = rat_of_nat (now' - now),
                               m_cost = 0,
                               m_model = ''gpt-3.5-turbo'' \<rparr> prompt of
                        (Inl e, store2) \<Rightarrow> (Inl GenerationFailed, store2)
                      | (Inr key, store2) \<Rightarrow> (Inr questions', store2)));
              fastTier =
                (case redisCached of
                   Some cached \<Rightarrow> (Inr cached, store1)
                 | None \<Rightarrow> generate)
          in (case cachedQuestions of
                None \<Rightarrow> fastTier
              | Some qs \<Rightarrow>
                  if length qs \<ge> count' then (Inr (take count' qs), store1) else fastTier))"


section \<open>Predicates of the specification\<close>

definition has_verified_payment :: "db \<Rightarrow> string \<Rightarrow> string \<Rightarrow> bool" where
  "has_verified_payment st ref userId =
     (\<exists>t \<in> set (transactions st).
        tx_paymentReference t = ref \<and> tx_user t = userId \<and> tx_status t = TxCompleted)"

text \<open>
  The wins of the user in the last 24 hours that are prior to the session being settled:
  the stored sessions other than that one which the streak filter accepts.
\<close>

definition priorWins :: "game_db \<Rightarrow> nat \<Rightarrow> GameSession \<Rightarrow> nat" where
  "priorWins st now g =
     length (filter (\<lambda>h. gs_id h \<noteq> gs_id g \<and> isRecentWin now (gs_userId g) h) (g_sessions st))"

text \<open>The session being settled is itself stored as a win that the streak filter accepts.\<close>

definition storedAsWin :: "game_db \<Rightarrow> nat \<Rightarrow> GameSession \<Rightarrow> bool" where
  "storedAsWin st now g =
     (\<exists>h \<in> set (g_sessions st). gs_id h = gs_id g \<and> isRecentWin now (gs_userId g) h)"

definition well_formed_question :: "IQuestion \<Rightarrow> bool" where
  "well_formed_question q =
     (length (iq_options q) = 4 \<and> (\<forall>opt \<in> set (iq_options q). opt \<noteq> [])
      \<and> iq_correctAnswer q \<in> set [''A'', ''B'', ''C'', ''D''])"

definition well_formed_set :: "IQuestion list \<Rightarrow> bool" where
  "well_formed_set qs =
     (1 \<le> length qs \<and> length qs \<le> 20 \<and> (\<forall>q \<in> set qs. well_formed_question q))"




section \<open>A small store\<close>

definition ex_question :: Question where
  "ex_question = \<lparr>
     question = ''Which planet is called the Red Planet?'',
     options = [''Mars'', ''Venus'', ''Jupiter'', ''Saturn''],
     correctAnswer = ''A'',
     explanation = Some ''Iron oxide colours its surface.'' \<rparr>"

definition ex_session :: "session_status \<Rightarrow> string option list \<Rightarrow> IQuizSession" where
  "ex_session st answers = \<lparr>
     user = ''u1'', category = ''science'', questions = [ex_question],
     userAnswers = answers, score = 0, totalQuestions = 1, timeStarted = 0,
     timeCompleted = None, status = st, paymentReference = ''pay_1'',
     rewardEarned = 0, difficulty = ''medium'' \<rparr>"

definition ex_payment :: ITransaction where
  "ex_payment = \<lparr>
     tx_user = ''u1'', tx_amount = 1, tx_type = Debit, tx_status = TxCompleted,
     tx_description = ''Quiz payment'', tx_paymentMethod = ''stripe'',
     tx_paymentReference = ''pay_1'' \<rparr>"

definition ex_db :: "session_status \<Rightarrow> string option list \<Rightarrow> db" where
  "ex_db st answers = \<lparr>
     users = [''u1'' \<mapsto> \<lparr>walletBalance = 5\<rparr>],
     quizSessions = [''s1'' \<mapsto> ex_session st answers],
     transactions = [ex_payment] \<rparr>"

text \<open>A ledger entry under the reward reference of session \<open>s1\<close>.\<close>

definition ex_reward :: ITransaction where
  "ex_reward = \<lparr>
     tx_user = ''u1'', tx_amount = 1 / 10, tx_type = Credit, tx_status = TxCompleted,
     tx_description = ''Quiz reward for science'', tx_paymentMethod = ''system'',
     tx_paymentReference = ''reward_s1'' \<rparr>"

text \<open>
  The store as a first settlement of session \<open>s1\<close> leaves it when every write goes
  through: the session completed with its score and reward, the wallet credited, the
  reward in the ledger.
\<close>

definition ex_db_settled :: db where
  "ex_db_settled = \<lparr>
     users = [''u1'' \<mapsto> \<lparr>walletBalance = 51 / 10\<rparr>],
     quizSessions = [''s1'' \<mapsto> (ex_session Completed [Some ''A''])\<lparr>
        score := 1, timeCompleted := Some 1000, rewardEarned := 1 / 10 \<rparr>],
     transactions = [ex_payment, ex_reward] \<rparr>"

text \<open>
  A session of two questions, the first answered correctly; the label stored for the
  second is in lower case.
\<close>

definition ex_session2 :: IQuizSession where
  "ex_session2 = (ex_session Active [Some ''A''])\<lparr>
     questions := [ex_question, ex_question\<lparr>correctAnswer := ''b''\<rparr>],
     totalQuestions := 2 \<rparr>"

definition ex_db2 :: db where
  "ex_db2 = (ex_db Active [])\<lparr>quizSessions := [''s1'' \<mapsto> ex_session2]\<rparr>"

definition ex_gameQuestion :: "bool \<Rightarrow> GameQuestion" where
  "ex_gameQuestion c = \<lparr>
     gq_question = ''What is the chemical symbol of gold?'',
     gq_options = [''Au'', ''Ag'', ''Fe'', ''Pb''],
     gq_correctAnswer = ''A'',
     gq_userAnswer = Some (if c then ''A'' else ''B''),
     gq_isCorrect = c,
     gq_points = 10 \<rparr>"

text \<open>
  The session to settle, and three other sessions in the store that are no recent win of
  its user: a win older than 24 hours, a recent win of another user, a recent loss.
  The clock of the examples is \<open>100000000\<close>.
\<close>

definition ex_gameSession :: GameSession where
  "ex_gameSession = \<lparr>
     gs_id = ''g1'', gs_userId = ''u1'', gs_category = ''science'',
     gs_questions = replicate 7 (ex_gameQuestion True) @ replicate 3 (ex_gameQuestion False),
     gs_totalScore = to_rat (fdiv_nat 7 10), gs_totalPoints = 70, gs_timeSpent = 150,
     gs_status = Active, gs_createdAt = 99000000 \<rparr>"

definition ex_otherSessions :: "GameSession list" where
  "ex_otherSessions =
     [ex_gameSession\<lparr> gs_id := ''g0'', gs_status := Completed, gs_createdAt := 10000000 \<rparr>,
      ex_gameSession\<lparr> gs_id := ''g2'', gs_userId := ''u2'', gs_status := Completed,
                       gs_createdAt := 95000000 \<rparr>,
      ex_gameSession\<lparr> gs_id := ''g3'', gs_status := Completed, gs_totalScore := 1 / 2,
                       gs_createdAt := 96000000 \<rparr>]"

definition ex_game_db :: "GameSession \<Rightarrow> game_db" where
  "ex_game_db g = \<lparr>
     g_users = [''u1'' \<mapsto> \<lparr>gu_walletBalance = 5, gu_totalEarnings = 0, gu_gamesPlayed = 0\<rparr>],
     g_sessions = ex_otherSessions @ [g],
     g_transactions = [] \<rparr>"

definition ex_iquestion :: "string \<Rightarrow> IQuestion" where
  "ex_iquestion answer = \<lparr>
     iq_question = ''What is the chemical symbol of gold?'',
     iq_options = [''Au'', ''Ag'', ''Fe'', ''Pb''],
     iq_correctAnswer = answer,
     iq_explanation = Some ''Aurum is the Latin name of gold.'',
     iq_topic = None,
     iq_timeLimit = None \<rparr>"

definition ex_prompt :: string where
  "ex_prompt = ''Generate 1 multiple-choice science questions at easy difficulty level.''"

text \<open>A stored entry of a category, created at the given instant.\<close>

definition ex_entry :: "string \<Rightarrow> nat \<Rightarrow> IAIQuestion" where
  "ex_entry cat created = \<lparr>
     ai_category = cat, ai_difficulty = ''easy'',
     ai_questions = [(ex_iquestion ''A'')\<lparr>iq_timeLimit := Some 30\<rparr>],
     aiModel = ''gpt-3.5-turbo'', aiPrompt = ex_prompt,
     tokensUsed = 900, cost = to_rat (fmul (900, 0) (fdiv_nat 2 1000000)),
     cacheKey = derive_cacheKey cat ''easy'' created, isActive = True, usageCount = 0,
     lastUsed = created, expiresAt = Some (created + 86400000),
     meta_responseTime = 1200, meta_questionCount = 1, createdAt = created, updatedAt = created \<rparr>"

text \<open>
  A new document that is given a cache key and an expiry when it is constructed, with
  one question that carries the given answer label.
\<close>

definition ex_document :: "string \<Rightarrow> IAIQuestion" where
  "ex_document answer = \<lparr>
     ai_category = ''science'', ai_difficulty = ''easy'',
     ai_questions = map cast_question [ex_iquestion answer],
     aiModel = ''gpt-3.5-turbo'', aiPrompt = ex_prompt,
     tokensUsed = 900, cost = 0,
     cacheKey = ''preset'', isActive = True, usageCount = 0,
     lastUsed = 1730000000000, expiresAt = Some 1730000000000,
     meta_responseTime = 1200, meta_questionCount = 1, createdAt = 0, updatedAt = 0 \<rparr>"


section \<open>Properties of the quiz service\<close>

lemmas ex_defs = ex_db_def ex_session_def ex_question_def ex_payment_def ex_reward_def
  ex_db_settled_def

lemmas ex_game_defs = ex_game_db_def ex_gameSession_def ex_gameQuestion_def ex_otherSessions_def

lemma calcScore_card:
  "calcScore qs answers =
     card {i. i < length qs \<and> answer_at answers i = Some (correctAnswer (qs ! i))}"
proof -
  have "{i. i < length qs \<and>
            (case enumerate 0 qs ! i of
               (index, q) \<Rightarrow> answer_at answers index = Some (correctAnswer q))}
        = {i. i < length qs \<and> answer_at answers i = Some (correctAnswer (qs ! i))}"
    by (auto simp: nth_enumerate_eq)
  then show ?thesis
    by (simp add: calcScore_def length_filter_conv_card)
qed

lemma answer_at_assign_index:
  "answer_at (assign_index xs i v) j = (if j = i then Some v else answer_at xs j)"
  by (auto simp: answer_at_def assign_index_def nth_append nth_list_update)

lemma toUpperCase_labels:
  "l \<in> set [''A'', ''B'', ''C'', ''D''] \<Longrightarrow> toUpperCase l = l"
  by (auto simp: toUpperCase_def toUpperCase_char_def)

lemma submitAnswer_terminal:
  "quizSessions st sid = Some s \<Longrightarrow> status s \<noteq> Active \<Longrightarrow>
     submitAnswer st sid i a = (Inl QuizSessionNotActive, st)"
  by (simp add: submitAnswer_def)

lemma Transaction_findOne_None:
  "Transaction_findOne st ref userId = None \<longleftrightarrow> \<not> has_verified_payment st ref userId"
  by (auto simp: Transaction_findOne_def has_verified_payment_def find_None_iff)

lemma startQuiz_example:
  "startQuiz (ex_db Active []) ''s2'' 7 (Inr [ex_question]) ''u1'' ''science'' ''pay_1''
   = (Inr (''s2'', ex_session Active []\<lparr>timeStarted := 7\<rparr>),
      (ex_db Active [])\<lparr>quizSessions :=
         (quizSessions (ex_db Active []))(''s2'' \<mapsto> ex_session Active []\<lparr>timeStarted := 7\<rparr>)\<rparr>)"
  by (simp add: startQuiz_def Transaction_findOne_def ex_defs quizSession_valid_def
      question_doc_valid_def Let_def)


subsection \<open>Starting a session\<close>

text \<open>
  Claim C6. \<open>startQuiz\<close> returns a session only when the ledger holds a transaction
  with the given payment reference, the given user and status \<open>completed\<close>; where the
  ledger holds none, it answers \<open>Payment not verified\<close> and the store it leaves is the
  store it was given, so no session has been created.
\<close>

theorem startQuiz_requires_verified_payment:
  "(\<forall>r st'. startQuiz st newId now generated userId cat ref = (Inr r, st')
       \<longrightarrow> has_verified_payment st ref userId)
   \<and> (\<not> has_verified_payment st ref userId
       \<longrightarrow> startQuiz st newId now generated userId cat ref = (Inl PaymentNotVerified, st))"
proof -
  have miss: "startQuiz st newId now generated userId cat ref = (Inl PaymentNotVerified, st)"
    if "\<not> has_verified_payment st ref userId"
  proof -
    from that have "Transaction_findOne st ref userId = None"
      by (simp add: Transaction_findOne_None)
    then show ?thesis by (simp add: startQuiz_def)
  qed
  then show ?thesis by fastforce
qed

theorem startQuiz_requires_verified_payment_witness:
  "has_verified_payment (ex_db Active []) ''pay_1'' ''u1''
   \<and> fst (startQuiz (ex_db Active []) ''s2'' 7 (Inr [ex_question]) ''u1'' ''science'' ''pay_1'')
       = Inr (''s2'', ex_session Active []\<lparr>timeStarted := 7\<rparr>)
   \<and> \<not> has_verified_payment (ex_db Active []) ''pay_2'' ''u1''
   \<and> startQuiz (ex_db Active []) ''s2'' 7 (Inr [ex_question]) ''u1'' ''science'' ''pay_2''
       = (Inl PaymentNotVerified, ex_db Active [])"
  using startQuiz_requires_verified_payment
          [where st = "ex_db Active []" and newId = "''s2''" and now = 7
             and generated = "Inr [ex_question]" and userId = "''u1''" and cat = "''science''"
             and ref = "''pay_1''"]
        startQuiz_requires_verified_payment
          [where st = "ex_db Active []" and newId = "''s2''" and now = 7
             and generated = "Inr [ex_question]" and userId = "''u1''" and cat = "''science''"
             and ref = "''pay_2''"]
        startQuiz_example
  by (simp add: has_verified_payment_def ex_defs)

lemma Transaction_save_Inr:
  "Transaction_save st t = Inr st' \<Longrightarrow> st' = st\<lparr>transactions := transactions st @ [t]\<rparr>"
  by (simp add: Transaction_save_def split: if_splits)

lemma User_incWallet_quizSessions [simp]:
  "quizSessions (User_incWallet st uid a) = quizSessions st"
  by (simp add: User_incWallet_def split: option.splits)

lemma User_incWallet_transactions [simp]:
  "transactions (User_incWallet st uid a) = transactions st"
  by (simp add: User_incWallet_def split: option.splits)

lemma User_incWallet_users:
  "users (User_incWallet st uid a)
     = (case users st uid of None \<Rightarrow> users st
        | Some u \<Rightarrow> (users st)(uid \<mapsto> u\<lparr>walletBalance := walletBalance u + a\<rparr>))"
  by (simp add: User_incWallet_def split: option.splits)

text \<open>The sessions and the users that \<open>completeQuiz\<close> leaves, whatever it returns.\<close>

lemma completeQuiz_quizSessions:
  assumes "quizSessions st sid = Some s" "user s = uid"
  shows "quizSessions (snd (completeQuiz st now sid uid))
           = (quizSessions st)(sid \<mapsto> s\<lparr> score := calcScore (questions s) (userAnswers s),
                 status := Completed, timeCompleted := Some now,
                 rewardEarned := rat_of_nat (calcScore (questions s) (userAnswers s)) * rewardRate \<rparr>)"
  using assms
  by (auto simp: completeQuiz_def Let_def split: sum.splits dest!: Transaction_save_Inr)

lemma completeQuiz_users:
  assumes "quizSessions st sid = Some s" "user s = uid"
  shows "users (snd (completeQuiz st now sid uid))
           = users (User_incWallet st uid
                (rat_of_nat (calcScore (questions s) (userAnswers s)) * rewardRate))"
  using assms
  by (auto simp: completeQuiz_def Let_def split: sum.splits dest!: Transaction_save_Inr)

text \<open>
  Every call that finds the session credits the owner's wallet, whatever the call returns
  and whatever the session's status was.
\<close>

lemma completeQuiz_credits_on_every_call:
  assumes "quizSessions st sid = Some s" "user s = uid" "users st uid = Some u"
  shows "users (snd (completeQuiz st now sid uid)) uid
           = Some (u\<lparr>walletBalance := walletBalance u
                + rat_of_nat (calcScore (questions s) (userAnswers s)) * rewardRate\<rparr>)"
  by (simp add: completeQuiz_users [OF assms(1,2)] User_incWallet_users assms(3))

lemma completeQuiz_stored_score:
  assumes "quizSessions st sid = Some s" "user s = uid"
  shows "map_option score (quizSessions (snd (completeQuiz st now sid uid)) sid)
           = Some (calcScore (questions s) (userAnswers s))"
  by (simp add: completeQuiz_quizSessions [OF assms])

lemmas eval_defs = completeQuiz_def submitAnswer_def calcScore_def answer_at_def at_index_def
  assign_index_def enumerate_eq_zip User_incWallet_def rewardRate_def Transaction_save_def
  transaction_valid_def Let_def

subsection \<open>Answers and scoring\<close>

lemma submitAnswer_active:
  assumes "quizSessions st sid = Some s" "status s = Active" "at_index (questions s) i = Some q"
  shows "submitAnswer st sid i a
     = (Inr \<lparr> isCorrect = (a = correctAnswer q), res_correctAnswer = correctAnswer q,
               res_explanation = explanation q \<rparr>,
        st\<lparr>quizSessions := (quizSessions st)(sid \<mapsto>
             s\<lparr>userAnswers := assign_index (userAnswers s) (nat i) a\<rparr>)\<rparr>)"
  using assms by (simp add: submitAnswer_def Let_def)

text \<open>
  The score that \<open>completeQuiz\<close> stores after an answer \<open>a\<close> has been submitted at
  index \<open>i\<close>: the questions other than \<open>i\<close> whose stored answer is their correct
  answer, and one more exactly when \<open>a\<close> is the correct answer of question \<open>i\<close>.
\<close>

lemma score_after_submit:
  assumes session: "quizSessions st sid = Some s" and active: "status s = Active"
    and q: "at_index (questions s) i = Some q"
  shows "map_option score
           (quizSessions (snd (completeQuiz (snd (submitAnswer st sid i a)) now sid (user s))) sid)
         = Some (card {j. j < length (questions s) \<and> j \<noteq> nat i
                          \<and> answer_at (userAnswers s) j = Some (correctAnswer (questions s ! j))}
                 + (if a = correctAnswer q then 1 else 0))"
proof -
  from q have i: "nat i < length (questions s)" and qi: "questions s ! nat i = q"
    by (auto simp: at_index_def split: if_splits)
  let ?ua = "assign_index (userAnswers s) (nat i) a"
  let ?s' = "s\<lparr>userAnswers := ?ua\<rparr>"
  let ?others = "{j. j < length (questions s) \<and> j \<noteq> nat i
      \<and> answer_at (userAnswers s) j = Some (correctAnswer (questions s ! j))}"
  have fin: "finite ?others" by simp
  have "{j. j < length (questions s) \<and> answer_at ?ua j = Some (correctAnswer (questions s ! j))}
      = (if a = correctAnswer q then insert (nat i) ?others else ?others)"
    using i qi by (auto simp: answer_at_assign_index)
  then have sc: "calcScore (questions s) ?ua
      = card ?others + (if a = correctAnswer q then 1 else 0)"
    using fin by (simp add: calcScore_card)
  have "map_option score
         (quizSessions (snd (completeQuiz (st\<lparr>quizSessions := (quizSessions st)(sid \<mapsto> ?s')\<rparr>)
            now sid (user s))) sid)
        = Some (calcScore (questions ?s') (userAnswers ?s'))"
    by (rule completeQuiz_stored_score) simp_all
  then show ?thesis
    by (simp add: submitAnswer_active [OF session active q] sc)
qed

text \<open>
  Claim C10. \<open>submitAnswer\<close> stores the answer as it was sent and reports
  \<open>isCorrect\<close> as the strict equality of the answer and the stored correct answer, and
  the score of \<open>completeQuiz\<close> is the number of questions whose stored answer equals
  the stored correct answer. So an answer that differs from the stored label in letter
  case only, the label being one of A to D up to case, passes \<open>validateAnswerInput\<close>
  (which upper-cases for the membership test alone), is stored unchanged, is reported
  incorrect, and adds nothing to the score, where the label itself adds one.
\<close>

theorem case_variant_answer_is_scored_incorrect:
  assumes session: "quizSessions st sid = Some s" and active: "status s = Active"
    and q: "at_index (questions s) i = Some q"
    and label: "toUpperCase (correctAnswer q) \<in> set [''A'', ''B'', ''C'', ''D'']"
    and differs: "answer \<noteq> correctAnswer q"
    and same_letter: "toUpperCase answer = toUpperCase (correctAnswer q)"
    and sid: "sid \<noteq> []"
  shows "validateAnswerInput sid (Some i) answer = None
    \<and> submitAnswer st sid i answer
         = (Inr \<lparr> isCorrect = False, res_correctAnswer = correctAnswer q,
                   res_explanation = explanation q \<rparr>,
            st\<lparr>quizSessions := (quizSessions st)(sid \<mapsto>
                 s\<lparr>userAnswers := assign_index (userAnswers s) (nat i) answer\<rparr>)\<rparr>)
    \<and> answer_at (assign_index (userAnswers s) (nat i) answer) (nat i) = Some answer
    \<and> (\<forall>a. map_sum id isCorrect (fst (submitAnswer st sid i a)) = Inr (a = correctAnswer q))
    \<and> (\<forall>qs answers. calcScore qs answers
          = card {j. j < length qs \<and> answer_at answers j = Some (correctAnswer (qs ! j))})
    \<and> map_option score
         (quizSessions (snd (completeQuiz (snd (submitAnswer st sid i answer)) now sid (user s))) sid)
         = Some (card {j. j < length (questions s) \<and> j \<noteq> nat i
                          \<and> answer_at (userAnswers s) j = Some (correctAnswer (questions s ! j))})
    \<and> map_option score
         (quizSessions (snd (completeQuiz (snd (submitAnswer st sid i (correctAnswer q))) now sid
            (user s))) sid)
         = Some (card {j. j < length (questions s) \<and> j \<noteq> nat i
                          \<and> answer_at (userAnswers s) j = Some (correctAnswer (questions s ! j))}
                 + 1)"
proof -
  from q have i: "0 \<le> i"
    by (auto simp: at_index_def split: if_splits)
  have up: "toUpperCase answer \<in> set [''A'', ''B'', ''C'', ''D'']"
    using same_letter label by simp
  then have ne: "answer \<noteq> []"
    by (auto simp: toUpperCase_def)
  have v: "validateAnswerInput sid (Some i) answer = None"
    using sid i ne up by (simp add: validateAnswerInput_def)
  have sub: "submitAnswer st sid i a
     = (Inr \<lparr> isCorrect = (a = correctAnswer q), res_correctAnswer = correctAnswer q,
               res_explanation = explanation q \<rparr>,
        st\<lparr>quizSessions := (quizSessions st)(sid \<mapsto>
             s\<lparr>userAnswers := assign_index (userAnswers s) (nat i) a\<rparr>)\<rparr>)" for a
    by (rule submitAnswer_active [OF session active q])
  have at: "answer_at (assign_index (userAnswers s) (nat i) answer) (nat i) = Some answer"
    by (simp add: answer_at_assign_index)
  have strict: "\<forall>a. map_sum id isCorrect (fst (submitAnswer st sid i a)) = Inr (a = correctAnswer q)"
    by (simp add: sub)
  have card: "\<forall>qs answers. calcScore qs answers
          = card {j. j < length qs \<and> answer_at answers j = Some (correctAnswer (qs ! j))}"
    by (simp add: calcScore_card)
  note sc = score_after_submit [OF session active q]
  show ?thesis
    using v sub [of answer] at strict card sc [of answer now] sc [of "correctAnswer q" now] differs
    by simp
qed

theorem case_variant_answer_is_scored_incorrect_witness:
  "quizSessions ex_db2 ''s1'' = Some ex_session2
   \<and> status ex_session2 = Active
   \<and> at_index (questions ex_session2) 1 = Some (ex_question\<lparr>correctAnswer := ''b''\<rparr>)
   \<and> toUpperCase (correctAnswer (ex_question\<lparr>correctAnswer := ''b''\<rparr>))
        \<in> set [''A'', ''B'', ''C'', ''D'']
   \<and> ''B'' \<noteq> correctAnswer (ex_question\<lparr>correctAnswer := ''b''\<rparr>)
   \<and> toUpperCase ''B'' = toUpperCase (correctAnswer (ex_question\<lparr>correctAnswer := ''b''\<rparr>))
   \<and> validateAnswerInput ''s1'' (Some 1) ''B'' = None
   \<and> fst (submitAnswer ex_db2 ''s1'' 1 ''B'')
        = Inr \<lparr> isCorrect = False, res_correctAnswer = ''b'',
                res_explanation = Some ''Iron oxide colours its surface.'' \<rparr>
   \<and> map_option userAnswers (quizSessions (snd (submitAnswer ex_db2 ''s1'' 1 ''B'')) ''s1'')
        = Some [Some ''A'', Some ''B'']
   \<and> map_option score
        (quizSessions (snd (completeQuiz (snd (submitAnswer ex_db2 ''s1'' 1 ''B'')) 1000 ''s1'' ''u1''))
           ''s1'')
        = Some 1
   \<and> map_option score
        (quizSessions (snd (completeQuiz (snd (submitAnswer ex_db2 ''s1'' 1 ''b'')) 1000 ''s1'' ''u1''))
           ''s1'')
        = Some 2"
proof -
  let ?q = "ex_question\<lparr>correctAnswer := ''b''\<rparr>"
  have h1: "quizSessions ex_db2 ''s1'' = Some ex_session2"
    by (simp add: ex_db2_def)
  have h2: "status ex_session2 = Active"
    by (simp add: ex_session2_def ex_session_def)
  have h3: "at_index (questions ex_session2) 1 = Some ?q"
    by (simp add: ex_session2_def at_index_def)
  have h4: "toUpperCase (correctAnswer ?q) \<in> set [''A'', ''B'', ''C'', ''D'']"
    by (simp add: toUpperCase_def toUpperCase_char_def)
  have h5: "''B'' \<noteq> correctAnswer ?q"
    by simp
  have h6: "toUpperCase ''B'' = toUpperCase (correctAnswer ?q)"
    by (simp add: toUpperCase_def toUpperCase_char_def)
  have h7: "''s1'' \<noteq> []"
    by simp
  have u: "user ex_session2 = ''u1''" "userAnswers ex_session2 = [Some ''A'']"
    "questions ex_session2 = [ex_question, ?q]"
    "explanation ?q = Some ''Iron oxide colours its surface.''" "correctAnswer ?q = ''b''"
    by (simp_all add: ex_session2_def ex_session_def ex_question_def)
  have others: "card {j. j < length (questions ex_session2) \<and> j \<noteq> nat 1
      \<and> answer_at (userAnswers ex_session2) j = Some (correctAnswer (questions ex_session2 ! j))}
      = 1"
  proof -
    have "{j. j < length (questions ex_session2) \<and> j \<noteq> nat 1
      \<and> answer_at (userAnswers ex_session2) j = Some (correctAnswer (questions ex_session2 ! j))}
      = {0}"
      by (auto simp: u answer_at_def ex_question_def less_Suc_eq)
    then show ?thesis by simp
  qed
  note t = case_variant_answer_is_scored_incorrect [OF h1 h2 h3 h4 h5 h6 h7, of 1000]
  from t have v: "validateAnswerInput ''s1'' (Some 1) ''B'' = None"
    by blast
  from t have sub: "submitAnswer ex_db2 ''s1'' 1 ''B''
         = (Inr \<lparr> isCorrect = False, res_correctAnswer = correctAnswer ?q,
                   res_explanation = explanation ?q \<rparr>,
            ex_db2\<lparr>quizSessions := (quizSessions ex_db2)(''s1'' \<mapsto>
                 ex_session2\<lparr>userAnswers := assign_index (userAnswers ex_session2) (nat 1) ''B''\<rparr>)\<rparr>)"
    by blast
  have r: "fst (submitAnswer ex_db2 ''s1'' 1 ''B'')
        = Inr \<lparr> isCorrect = False, res_correctAnswer = ''b'',
                res_explanation = Some ''Iron oxide colours its surface.'' \<rparr>"
    unfolding sub u by simp
  have a: "map_option userAnswers (quizSessions (snd (submitAnswer ex_db2 ''s1'' 1 ''B'')) ''s1'')
        = Some [Some ''A'', Some ''B'']"
    unfolding sub u by (simp add: assign_index_def)
  from t have "map_option score
         (quizSessions (snd (completeQuiz (snd (submitAnswer ex_db2 ''s1'' 1 ''B'')) 1000 ''s1''
            (user ex_session2))) ''s1'')
         = Some (card {j. j < length (questions ex_session2) \<and> j \<noteq> nat 1
              \<and> answer_at (userAnswers ex_session2) j
                  = Some (correctAnswer (questions ex_session2 ! j))})"
    by blast
  then have s1: "map_option score
        (quizSessions (snd (completeQuiz (snd (submitAnswer ex_db2 ''s1'' 1 ''B'')) 1000 ''s1'' ''u1''))
           ''s1'')
        = Some 1"
    unfolding others u(1) .
  from t have "map_option score
         (quizSessions (snd (completeQuiz (snd (submitAnswer ex_db2 ''s1'' 1 (correctAnswer ?q)))
            1000 ''s1'' (user ex_session2))) ''s1'')
         = Some (card {j. j < length (questions ex_session2) \<and> j \<noteq> nat 1
              \<and> answer_at (userAnswers ex_session2) j
                  = Some (correctAnswer (questions ex_session2 ! j))} + 1)"
    by blast
  then have s2: "map_option score
        (quizSessions (snd (completeQuiz (snd (submitAnswer ex_db2 ''s1'' 1 ''b'')) 1000 ''s1'' ''u1''))
           ''s1'')
        = Some 2"
    unfolding others u(1) u(5) by (simp add: numeral_2_eq_2)
  show ?thesis
    by (intro conjI) (fact h1 h2 h3 h4 h5 h6 v r a s1 s2)+
qed

subsection \<open>Sessions that are already terminal\<close>

text \<open>
  Claim C3, evaluated on the code. \<open>submitAnswer\<close> refuses a session that is not
  active (\<open>submitAnswer_terminal\<close>), but \<open>completeQuiz\<close> has no such check: an
  abandoned session becomes completed and its owner is paid, and a session that is
  already completed is scored, stamped and paid once more.
\<close>

theorem completeQuiz_on_terminal_session_settles:
  "status (ex_session Abandoned [Some ''A'']) = Abandoned
   \<and> map_option walletBalance (users (ex_db Abandoned [Some ''A'']) ''u1'') = Some 5
   \<and> map_option status
        (quizSessions (snd (completeQuiz (ex_db Abandoned [Some ''A'']) 1000 ''s1'' ''u1'')) ''s1'')
        = Some Completed
   \<and> map_option walletBalance
        (users (snd (completeQuiz (ex_db Abandoned [Some ''A'']) 1000 ''s1'' ''u1'')) ''u1'')
        = Some (51 / 10)
   \<and> map_option score (quizSessions (ex_db Completed [Some ''A'']) ''s1'') = Some 0
   \<and> map_option score
        (quizSessions (snd (completeQuiz (ex_db Completed [Some ''A'']) 1000 ''s1'' ''u1'')) ''s1'')
        = Some 1
   \<and> map_option timeCompleted
        (quizSessions (snd (completeQuiz (ex_db Completed [Some ''A'']) 1000 ''s1'' ''u1'')) ''s1'')
        = Some (Some 1000)
   \<and> map_option walletBalance
        (users (snd (completeQuiz (ex_db Completed [Some ''A'']) 1000 ''s1'' ''u1'')) ''u1'')
        = Some (51 / 10)"
  by (simp add: eval_defs ex_defs)

subsection \<open>Settlement inside completeQuiz\<close>

text \<open>
  Claim C1, evaluated on the code. The call throws because the reward transaction is
  refused, and the ledger is as before; yet the wallet has been credited and the session
  is stored as completed. The three writes are not one unit. The same happens on a
  ledger that already holds the session's reward reference.
\<close>

theorem completeQuiz_failed_insert_keeps_wallet_credit:
  "fst (completeQuiz (ex_db Active [Some ''A'']) 1000 ''s1'' ''u1'') = Inl ValidationError
   \<and> transactions (snd (completeQuiz (ex_db Active [Some ''A'']) 1000 ''s1'' ''u1''))
        = transactions (ex_db Active [Some ''A''])
   \<and> map_option walletBalance (users (ex_db Active [Some ''A'']) ''u1'') = Some 5
   \<and> map_option walletBalance
        (users (snd (completeQuiz (ex_db Active [Some ''A'']) 1000 ''s1'' ''u1'')) ''u1'')
        = Some (51 / 10)
   \<and> map_option status
        (quizSessions (snd (completeQuiz (ex_db Active [Some ''A'']) 1000 ''s1'' ''u1'')) ''s1'')
        = Some Completed
   \<and> fst (completeQuiz ((ex_db Active [Some ''A''])\<lparr>transactions := [ex_payment, ex_reward]\<rparr>)
             1000 ''s1'' ''u1'') = Inl ValidationError
   \<and> transactions
        (snd (completeQuiz ((ex_db Active [Some ''A''])\<lparr>transactions := [ex_payment, ex_reward]\<rparr>)
                1000 ''s1'' ''u1''))
        = [ex_payment, ex_reward]
   \<and> map_option walletBalance
        (users (snd (completeQuiz ((ex_db Active [Some ''A''])\<lparr>transactions := [ex_payment, ex_reward]\<rparr>)
                       1000 ''s1'' ''u1'')) ''u1'')
        = Some (51 / 10)"
  by (simp add: eval_defs ex_defs)

text \<open>
  Claim C2, evaluated on the code. Completing the same session twice credits the wallet
  twice, and the ledger holds no transaction with the session's reward reference. On a
  store where the session is already settled, reward entry included, one more call
  credits the wallet again.
\<close>

theorem completeQuiz_twice_credits_twice:
  "map_option walletBalance (users (ex_db Active [Some ''A'']) ''u1'') = Some 5
   \<and> map_option walletBalance
        (users (snd (completeQuiz (ex_db Active [Some ''A'']) 1000 ''s1'' ''u1'')) ''u1'')
        = Some (51 / 10)
   \<and> map_option walletBalance
        (users (snd (completeQuiz (snd (completeQuiz (ex_db Active [Some ''A'']) 1000 ''s1'' ''u1''))
                  2000 ''s1'' ''u1'')) ''u1'')
        = Some (52 / 10)
   \<and> map tx_paymentReference
        (transactions (snd (completeQuiz (snd (completeQuiz (ex_db Active [Some ''A'']) 1000 ''s1'' ''u1''))
                  2000 ''s1'' ''u1''))) = [''pay_1'']
   \<and> map_option walletBalance (users ex_db_settled ''u1'') = Some (51 / 10)
   \<and> map_option status (quizSessions ex_db_settled ''s1'') = Some Completed
   \<and> map tx_paymentReference (transactions ex_db_settled) = [''pay_1'', ''reward_s1'']
   \<and> map_option walletBalance
        (users (snd (completeQuiz ex_db_settled 2000 ''s1'' ''u1'')) ''u1'')
        = Some (52 / 10)"
  by (simp add: eval_defs ex_defs)

subsection \<open>What a response reveals\<close>

text \<open>
  Claim C4 as stated fails: the response to \<open>submitAnswer\<close> on an active session
  carries the correct answer and the explanation of the question answered, and the
  session is still active afterwards.
\<close>

theorem active_session_answer_reveal_counterexample:
  "map_option status (quizSessions (ex_db Active []) ''s1'') = Some Active
   \<and> fst (submitAnswer_handler (ex_db Active []) ''s1'' (Some 0) ''B'')
        = Inr \<lparr> resp_isCorrect = False, resp_correctAnswer = ''A'',
                resp_explanation = Some ''Iron oxide colours its surface.'',
                resp_nextQuestionIndex = 1 \<rparr>
   \<and> map_option status
        (quizSessions (snd (submitAnswer_handler (ex_db Active []) ''s1'' (Some 0) ''B'')) ''s1'')
        = Some Active"
  by (simp add: submitAnswer_handler_def validateAnswerInput_def toUpperCase_def
      toUpperCase_char_def eval_defs ex_defs)

lemma getQuizSession_owner:
  "quizSessions st sid = Some s \<Longrightarrow> user s = uid \<Longrightarrow>
     getQuizSession st sid uid = Inr (sanitizeQuizSession sid s)"
  by (simp add: getQuizSession_def)

lemma sanitize_length:
  "length (v_questions (sanitizeQuizSession sid s)) = length (questions s)"
  by (simp add: sanitizeQuizSession_def Let_def)

lemma sanitize_hidden:
  assumes "status s \<noteq> Completed" "i < length (questions s)"
  shows "v_questions (sanitizeQuizSession sid s) ! i
     = \<lparr> v_question = question (questions s ! i), v_options = options (questions s ! i),
         v_userAnswer = answer_at (userAnswers s) i, v_isAnswered = (i < length (userAnswers s)),
         v_correctAnswer = None, v_explanation = None, v_isCorrect = None \<rparr>"
  using assms by (simp add: sanitizeQuizSession_def Let_def nth_enumerate_eq)

lemma sanitize_revealed:
  assumes "status s = Completed" "i < length (questions s)"
  shows "v_questions (sanitizeQuizSession sid s) ! i
     = \<lparr> v_question = question (questions s ! i), v_options = options (questions s ! i),
         v_userAnswer = answer_at (userAnswers s) i, v_isAnswered = (i < length (userAnswers s)),
         v_correctAnswer = Some (correctAnswer (questions s ! i)),
         v_explanation = Some (explanation (questions s ! i)),
         v_isCorrect = Some (answer_at (userAnswers s) i = Some (correctAnswer (questions s ! i))) \<rparr>"
  using assms by (simp add: sanitizeQuizSession_def Let_def nth_enumerate_eq)

text \<open>
  Claim C4, amended. The read view (\<open>sanitizeQuizSession\<close>) of an active session
  carries no correct answer, explanation or correctness flag for any question, and the
  read view of a completed session carries all three for every question. The one
  response that reveals an answer while the session is active is that of
  \<open>submitAnswer\<close>, for the question at the submitted index.
\<close>

theorem read_view_reveal_policy:
  "length (v_questions (sanitizeQuizSession sid s)) = length (questions s)
   \<and> (status s = Active \<longrightarrow>
        (\<forall>i < length (questions s).
           v_correctAnswer (v_questions (sanitizeQuizSession sid s) ! i) = None
         \<and> v_explanation (v_questions (sanitizeQuizSession sid s) ! i) = None
         \<and> v_isCorrect (v_questions (sanitizeQuizSession sid s) ! i) = None))
   \<and> (status s = Completed \<longrightarrow>
        (\<forall>i < length (questions s).
           v_correctAnswer (v_questions (sanitizeQuizSession sid s) ! i)
             = Some (correctAnswer (questions s ! i))
         \<and> v_explanation (v_questions (sanitizeQuizSession sid s) ! i)
             = Some (explanation (questions s ! i))
         \<and> v_isCorrect (v_questions (sanitizeQuizSession sid s) ! i)
             = Some (answer_at (userAnswers s) i = Some (correctAnswer (questions s ! i)))))
   \<and> (\<forall>st i answer r st'. quizSessions st sid = Some s
          \<and> submitAnswer st sid i answer = (Inr r, st')
        \<longrightarrow> status s = Active \<and> 0 \<le> i \<and> nat i < length (questions s)
            \<and> res_correctAnswer r = correctAnswer (questions s ! nat i)
            \<and> res_explanation r = explanation (questions s ! nat i))"
proof -
  have sub: "status s = Active \<and> 0 \<le> i \<and> nat i < length (questions s)
            \<and> res_correctAnswer r = correctAnswer (questions s ! nat i)
            \<and> res_explanation r = explanation (questions s ! nat i)"
    if "quizSessions st sid = Some s" "submitAnswer st sid i answer = (Inr r, st')"
    for st i answer r st'
    using that
    by (auto simp: submitAnswer_def at_index_def Let_def split: if_splits option.splits)
  show ?thesis
    using sub by (auto simp: sanitize_length sanitize_hidden sanitize_revealed)
qed

theorem read_view_reveal_policy_witness:
  "status (ex_session Active [Some ''B'']) = Active
   \<and> map v_correctAnswer (v_questions (sanitizeQuizSession ''s1'' (ex_session Active [Some ''B''])))
        = [None]
   \<and> map v_explanation (v_questions (sanitizeQuizSession ''s1'' (ex_session Active [Some ''B''])))
        = [None]
   \<and> status (ex_session Completed [Some ''B'']) = Completed
   \<and> map v_correctAnswer (v_questions (sanitizeQuizSession ''s1'' (ex_session Completed [Some ''B''])))
        = [Some ''A'']
   \<and> map v_explanation (v_questions (sanitizeQuizSession ''s1'' (ex_session Completed [Some ''B''])))
        = [Some (Some ''Iron oxide colours its surface.'')]
   \<and> map v_isCorrect (v_questions (sanitizeQuizSession ''s1'' (ex_session Completed [Some ''B''])))
        = [Some False]
   \<and> quizSessions (ex_db Active [Some ''B'']) ''s1'' = Some (ex_session Active [Some ''B''])
   \<and> map_sum id res_correctAnswer (fst (submitAnswer (ex_db Active [Some ''B'']) ''s1'' 0 ''C''))
        = Inr ''A''"
proof -
  have len: "length (questions (ex_session st a)) = 1" for st a
    by (simp add: ex_defs)
  have q0: "questions (ex_session st a) ! 0 = ex_question" for st a
    by (simp add: ex_defs)
  have st: "status (ex_session Active [Some ''B'']) = Active"
    "status (ex_session Completed [Some ''B'']) = Completed"
    by (simp_all add: ex_defs)
  have sub: "submitAnswer (ex_db Active [Some ''B'']) ''s1'' 0 ''C''
    = (Inr \<lparr> isCorrect = False, res_correctAnswer = ''A'',
              res_explanation = Some ''Iron oxide colours its surface.'' \<rparr>,
       ex_db Active [Some ''C''])"
    by (simp add: eval_defs ex_defs)
  have l1: "xs = [x] \<longleftrightarrow> length xs = 1 \<and> xs ! 0 = x" for xs :: "'a list" and x
    by (cases xs) auto
  show ?thesis
    using read_view_reveal_policy [of "''s1''" "ex_session Active [Some ''B'']"]
          read_view_reveal_policy [of "''s1''" "ex_session Completed [Some ''B'']"]
          st sub
    by (simp add: l1 len q0 ex_db_def) (simp add: ex_defs answer_at_def)
qed


section \<open>Properties of the reward service\<close>

lemmas double_defs = fround_def fmul_def fdiv_nat_def ffloor_def to_rat_def pow2_def
  bit_length.simps

lemma distributeReward_all_or_nothing:
  "fst (distributeReward st userId amount sid) = Inl e \<Longrightarrow>
     snd (distributeReward st userId amount sid) = st"
  by (simp add: distributeReward_def Let_def split: sum.splits)

lemma distributeReward_commit:
  assumes "userId \<noteq> []" "''REWARD_'' @ sid \<notin> set (map gt_reference (g_transactions st))"
  shows "distributeReward st userId amount sid =
     (Inr (),
      st\<lparr> g_users := (case g_users st userId of
                None \<Rightarrow> g_users st
              | Some u \<Rightarrow> (g_users st)(userId \<mapsto>
                  u\<lparr> gu_walletBalance := gu_walletBalance u + amount,
                     gu_totalEarnings := gu_totalEarnings u + amount,
                     gu_gamesPlayed := gu_gamesPlayed u + 1 \<rparr>)),
          g_transactions := g_transactions st @
             [\<lparr> gt_userId = userId, gt_type = ''reward'', gt_amount = amount,
                gt_currency = ''USD'', gt_status = ''success'', gt_paymentMethod = ''wallet'',
                gt_reference = ''REWARD_'' @ sid,
                gt_description = ''Quiz reward for session '' @ sid \<rparr>] \<rparr>)"
  using assms
  by (simp add: distributeReward_def Let_def GameTransaction_create_def gameTransaction_valid_def
      split: option.splits)

lemma distributeReward_second_call_rejected:
  assumes "distributeReward st userId amount sid = (Inr (), st')"
  shows "distributeReward st' userId amount' sid = (Inl RewardDuplicateKeyError, st')"
  using assms
  by (auto simp: distributeReward_def Let_def GameTransaction_create_def gameTransaction_valid_def
      split: option.splits if_splits)

text \<open>
  Settling the same game session a second time is refused by the unique reference, and the
  refusal leaves the store, the wallet included, as the first settlement left it.
\<close>

lemma calculateReward_second_call_rejected:
  assumes "calculateReward st now g = (Inr r, st')"
  shows "calculateReward st' now' g = (Inl RewardDuplicateKeyError, st')"
proof -
  from assms have n: "length (gs_questions g) \<noteq> 0"
    by (auto simp: calculateReward_def Let_def split: if_splits)
  from assms n have "distributeReward st (gs_userId g) r (gs_id g) = (Inr (), st')"
    by (auto simp: calculateReward_def Let_def split: prod.splits sum.splits)
  then have "distributeReward st' (gs_userId g) a (gs_id g) = (Inl RewardDuplicateKeyError, st')" for a
    by (rule distributeReward_second_call_rejected)
  then show ?thesis
    using n by (simp add: calculateReward_def Let_def)
qed

text \<open>The doubles of the scenario: 7 of 10 is the double next to 0.7, and the base is 14.\<close>

lemma scenario_accuracy: "fdiv_nat 7 10 = (6305039478318694, - 53)"
  by (simp add: double_defs Let_def)

lemma scenario_threshold: "to_rat (fdiv_nat 7 10) = 6305039478318694 / 9007199254740992"
  unfolding scenario_accuracy by (simp add: to_rat_def pow2_def)

lemma scenario_floor: "ffloor (fmul (fmul (20, 0) (fdiv_nat 7 10)) (100, 0)) = 1400"
  by (simp add: double_defs Let_def)

lemma scenario_cents: "to_rat (fdiv_nat 1400 100) = 14"
  by (simp add: double_defs Let_def)

lemma scenario_base: "calculateBaseReward (fdiv_nat 7 10) 10 = 14"
proof -
  have "calculateBaseReward (fdiv_nat 7 10) 10
      = to_rat (fdiv_nat (nat (ffloor (fmul (fmul (20, 0) (fdiv_nat 7 10)) (100, 0)))) 100)"
    by (simp add: calculateBaseReward_def)
  also have "\<dots> = 14"
    unfolding scenario_floor by (simp add: scenario_cents)
  finally show ?thesis .
qed

lemma scenario_time: "calculateTimeBonus 150 10 = 5 / 4"
  by (simp add: calculateTimeBonus_def)

text \<open>
  Where the rounding of the product decides the cent: 15 correct answers of 22 give a
  base of 29.99 (the double next to it), where the exact product gives 30.
\<close>

lemma base_reward_rounding:
  "ffloor (fmul (fmul (44, 0) (fdiv_nat 15 22)) (100, 0)) = 2999"
  by (simp add: double_defs Let_def)

text \<open>
  The scenario with any number of wins counted: the amount handed to
  \<open>distributeReward\<close> is 15.25 plus 2 for each session the streak filter accepts.
\<close>

lemma scenario_run:
  assumes ten: "length (gs_questions g) = 10"
    and seven: "length (filter gq_isCorrect (gs_questions g)) = 7"
    and time: "gs_timeSpent g = 150"
    and amount: "amount = 61 / 4 + 2 * rat_of_nat (recentWins st now (gs_userId g))"
  shows "calculateReward st now g
      = (case distributeReward st (gs_userId g) amount (gs_id g) of
           (Inl e, st') \<Rightarrow> (Inl e, st')
         | (Inr _, st') \<Rightarrow> (Inr amount, st'))"
proof -
  have total: "calculateBaseReward (fdiv_nat 7 10) 10 + calculateTimeBonus 150 10
       + calculateStreakBonus st now (gs_userId g) = amount"
    by (simp add: scenario_base scenario_time calculateStreakBonus_def amount)
  show ?thesis
    unfolding calculateReward_def Let_def ten seven time total by simp
qed

text \<open>The count of the code is the prior wins, plus the settled session where it is stored as a win.\<close>

lemma recentWins_split:
  "recentWins st now (gs_userId g)
     = priorWins st now g
       + length (filter (\<lambda>h. gs_id h = gs_id g \<and> isRecentWin now (gs_userId g) h) (g_sessions st))"
proof -
  have "length (filter P xs) = length (filter (\<lambda>h. Q h \<and> P h) xs)
          + length (filter (\<lambda>h. \<not> Q h \<and> P h) xs)" for P Q and xs :: "GameSession list"
    by (induction xs) auto
  from this [of "isRecentWin now (gs_userId g)" "g_sessions st" "\<lambda>h. gs_id h = gs_id g"]
  show ?thesis
    by (simp add: recentWins_def priorWins_def)
qed

lemma recentWins_prior:
  assumes "priorWins st now g = 0" "\<not> storedAsWin st now g"
  shows "recentWins st now (gs_userId g) = 0"
proof -
  from assms(2) have "filter (\<lambda>h. gs_id h = gs_id g \<and> isRecentWin now (gs_userId g) h)
      (g_sessions st) = []"
    by (auto simp: storedAsWin_def filter_empty_conv)
  then show ?thesis
    using assms(1) by (simp add: recentWins_split)
qed

lemma ex_priorWins:
  "priorWins (ex_game_db g) 100000000 g = 0" if "gs_id g = ''g1''" "gs_userId g = ''u1''"
  using that
  by (simp add: priorWins_def ex_game_db_def ex_otherSessions_def ex_gameSession_def
      isRecentWin_def scenario_threshold)


text \<open>
  Claim C5 as stated fails twice. The ledger entry has status \<open>success\<close>;
  \<open>completed\<close> is not a status of this ledger. And the streak count runs over all stored
  sessions of the user, the settled one included: when that session is already stored as
  completed with its score of 0.7, there is no prior win and yet the streak bonus is 2
  and the reward 17.25.
\<close>

theorem reward_scenario_counterexample:
  "priorWins (ex_game_db ex_gameSession) 100000000 ex_gameSession = 0
   \<and> fst (calculateReward (ex_game_db ex_gameSession) 100000000 ex_gameSession) = Inr (61 / 4)
   \<and> map gt_reference
        (g_transactions (snd (calculateReward (ex_game_db ex_gameSession) 100000000 ex_gameSession)))
        = [''REWARD_g1'']
   \<and> map gt_status
        (g_transactions (snd (calculateReward (ex_game_db ex_gameSession) 100000000 ex_gameSession)))
        = [''success'']
   \<and> ''success'' \<noteq> ''completed''
   \<and> priorWins (ex_game_db (ex_gameSession\<lparr>gs_status := Completed\<rparr>)) 100000000
        (ex_gameSession\<lparr>gs_status := Completed\<rparr>) = 0
   \<and> fst (calculateReward (ex_game_db (ex_gameSession\<lparr>gs_status := Completed\<rparr>)) 100000000
             (ex_gameSession\<lparr>gs_status := Completed\<rparr>)) = Inr (69 / 4)
   \<and> (69 / 4 :: rat) \<noteq> 61 / 4"
proof -
  let ?c = "ex_gameSession\<lparr>gs_status := Completed\<rparr>"
  have ids: "gs_id ex_gameSession = ''g1''" "gs_userId ex_gameSession = ''u1''"
    "gs_id ?c = ''g1''" "gs_userId ?c = ''u1''"
    by (simp_all add: ex_gameSession_def)
  have ten: "length (gs_questions ex_gameSession) = 10" "length (gs_questions ?c) = 10"
    by (simp_all add: ex_gameSession_def)
  have seven: "length (filter gq_isCorrect (gs_questions ex_gameSession)) = 7"
    "length (filter gq_isCorrect (gs_questions ?c)) = 7"
    by (simp_all add: ex_gameSession_def ex_gameQuestion_def)
  have time: "gs_timeSpent ex_gameSession = 150" "gs_timeSpent ?c = 150"
    by (simp_all add: ex_gameSession_def)
  have w0: "recentWins (ex_game_db ex_gameSession) 100000000 ''u1'' = 0"
    by (simp add: recentWins_def ex_game_db_def ex_otherSessions_def ex_gameSession_def
        isRecentWin_def scenario_threshold)
  have w1: "recentWins (ex_game_db ?c) 100000000 ''u1'' = 1"
    by (simp add: recentWins_def ex_game_db_def ex_otherSessions_def ex_gameSession_def
        isRecentWin_def scenario_threshold)
  have run0: "calculateReward (ex_game_db ex_gameSession) 100000000 ex_gameSession
     = (case distributeReward (ex_game_db ex_gameSession) ''u1'' (61 / 4) ''g1'' of
           (Inl e, st') \<Rightarrow> (Inl e, st')
         | (Inr _, st') \<Rightarrow> (Inr (61 / 4), st'))"
    by (rule scenario_run [OF ten(1) seven(1) time(1), unfolded ids]) (simp add: w0)
  have run1: "calculateReward (ex_game_db ?c) 100000000 ?c
     = (case distributeReward (ex_game_db ?c) ''u1'' (69 / 4) ''g1'' of
           (Inl e, st') \<Rightarrow> (Inl e, st')
         | (Inr _, st') \<Rightarrow> (Inr (69 / 4), st'))"
    by (rule scenario_run [OF ten(2) seven(2) time(2), unfolded ids]) (simp add: w1)
  have fresh: "''REWARD_'' @ ''g1'' \<notin> set (map gt_reference (g_transactions (ex_game_db g)))" for g
    by (simp add: ex_game_db_def)
  have uid: "''u1'' \<noteq> []"
    by simp
  have empty: "g_transactions (ex_game_db g) = []" for g
    by (simp add: ex_game_db_def)
  have p0: "priorWins (ex_game_db ex_gameSession) 100000000 ex_gameSession = 0"
    by (rule ex_priorWins) (simp_all add: ids)
  have p1: "priorWins (ex_game_db ?c) 100000000 ?c = 0"
    by (rule ex_priorWins) (simp_all add: ids)
  show ?thesis
    unfolding run0 run1 distributeReward_commit [OF uid fresh] p0 p1
    by (simp add: empty)
qed

text \<open>
  Claim C5, amended. For a session of 10 questions with 7 correct, finished in 150 seconds
  (300 expected), with no prior win of the user in the last 24 hours and the session
  itself not stored as such a win when it is settled, a user that exists and no earlier
  reward for the session: the base reward is 14.00, the time bonus 1.25, the streak bonus
  0 and the reward 15.25; the wallet grows by exactly 15.25, and exactly one transaction
  is added to the ledger, with reference \<open>REWARD_<sessionId>\<close> and status \<open>success\<close>.
\<close>

theorem reward_scenario:
  assumes ten: "length (gs_questions g) = 10"
    and seven: "length (filter gq_isCorrect (gs_questions g)) = 7"
    and time: "gs_timeSpent g = 150"
    and prior: "priorWins st now g = 0"
    and self: "\<not> storedAsWin st now g"
    and usr: "g_users st (gs_userId g) = Some u"
    and fresh: "''REWARD_'' @ gs_id g \<notin> set (map gt_reference (g_transactions st))"
    and uid: "gs_userId g \<noteq> []"
  shows "calculateBaseReward (fdiv_nat 7 10) 10 = 14
     \<and> calculateTimeBonus 150 10 = 5 / 4
     \<and> calculateStreakBonus st now (gs_userId g) = 0
     \<and> fst (calculateReward st now g) = Inr (61 / 4)
     \<and> map_option gu_walletBalance (g_users (snd (calculateReward st now g)) (gs_userId g))
          = Some (gu_walletBalance u + 61 / 4)
     \<and> g_transactions (snd (calculateReward st now g))
          = g_transactions st @
             [\<lparr> gt_userId = gs_userId g, gt_type = ''reward'', gt_amount = 61 / 4,
                gt_currency = ''USD'', gt_status = ''success'', gt_paymentMethod = ''wallet'',
                gt_reference = ''REWARD_'' @ gs_id g,
                gt_description = ''Quiz reward for session '' @ gs_id g \<rparr>]"
proof -
  have wins: "recentWins st now (gs_userId g) = 0"
    using prior self by (rule recentWins_prior)
  have streak: "calculateStreakBonus st now (gs_userId g) = 0"
    using wins by (simp add: calculateStreakBonus_def)
  show ?thesis
    using streak usr
    by (simp add: scenario_run [OF ten seven time, of "61 / 4" st now] wins
        distributeReward_commit [OF uid fresh] scenario_base scenario_time)
qed

theorem reward_scenario_witness:
  "length (gs_questions ex_gameSession) = 10
   \<and> length (filter gq_isCorrect (gs_questions ex_gameSession)) = 7
   \<and> gs_timeSpent ex_gameSession = 150
   \<and> priorWins (ex_game_db ex_gameSession) 100000000 ex_gameSession = 0
   \<and> \<not> storedAsWin (ex_game_db ex_gameSession) 100000000 ex_gameSession
   \<and> length (g_sessions (ex_game_db ex_gameSession)) = 4
   \<and> map_option gu_walletBalance (g_users (ex_game_db ex_gameSession) ''u1'') = Some 5
   \<and> fst (calculateReward (ex_game_db ex_gameSession) 100000000 ex_gameSession) = Inr (61 / 4)
   \<and> map_option gu_walletBalance
        (g_users (snd (calculateReward (ex_game_db ex_gameSession) 100000000 ex_gameSession)) ''u1'')
        = Some (81 / 4)
   \<and> map gt_reference
        (g_transactions (snd (calculateReward (ex_game_db ex_gameSession) 100000000 ex_gameSession)))
        = [''REWARD_g1'']"
proof -
  let ?st = "ex_game_db ex_gameSession"
  have ids: "gs_userId ex_gameSession = ''u1''" "gs_id ex_gameSession = ''g1''"
    "g_transactions ?st = []"
    by (simp_all add: ex_gameSession_def ex_game_db_def)
  have h1: "length (gs_questions ex_gameSession) = 10"
    by (simp add: ex_gameSession_def)
  have h2: "length (filter gq_isCorrect (gs_questions ex_gameSession)) = 7"
    by (simp add: ex_gameSession_def ex_gameQuestion_def)
  have h3: "gs_timeSpent ex_gameSession = 150"
    by (simp add: ex_gameSession_def)
  have h4: "priorWins ?st 100000000 ex_gameSession = 0"
    by (rule ex_priorWins) (simp_all add: ids)
  have h5: "\<not> storedAsWin ?st 100000000 ex_gameSession"
    by (simp add: storedAsWin_def ex_game_db_def ex_otherSessions_def ex_gameSession_def
        isRecentWin_def)
  have h6: "g_users ?st (gs_userId ex_gameSession)
      = Some \<lparr>gu_walletBalance = 5, gu_totalEarnings = 0, gu_gamesPlayed = 0\<rparr>"
    by (simp add: ex_game_db_def ids)
  have h7: "''REWARD_'' @ gs_id ex_gameSession \<notin> set (map gt_reference (g_transactions ?st))"
    by (simp add: ids)
  have h8: "gs_userId ex_gameSession \<noteq> []"
    by (simp add: ids)
  have len: "length (g_sessions ?st) = 4"
    by (simp add: ex_game_db_def ex_otherSessions_def)
  from reward_scenario [OF h1 h2 h3 h4 h5 h6 h7 h8] h1 h2 h3 h4 h5 h6 len
  show ?thesis by (simp add: ids)
qed


section \<open>Properties of the question cache\<close>

lemmas cache_defs = preSave_def derive_cacheKey_def hourBucket_def
  aiQuestionSchema_valid_def questionSchema_valid_def questions_validator_def options_validator_def
  cast_question_def categories_def difficulties_def trim_def isWhiteSpace_def toLowerCase_def
  toLowerCase_char_def toUpperCase_def toUpperCase_char_def string_of_nat.simps digit_char_def
  Let_def

lemmas entry_defs = ex_entry_def derive_cacheKey_def hourBucket_def string_of_nat.simps
  digit_char_def trim_def isWhiteSpace_def toLowerCase_def toLowerCase_char_def

lemma schema_valid_well_formed:
  "aiQuestionSchema_valid d \<Longrightarrow> well_formed_set (ai_questions d)"
  by (auto simp: aiQuestionSchema_valid_def well_formed_set_def well_formed_question_def
      questions_validator_def questionSchema_valid_def options_validator_def Suc_le_eq)

lemma preSave_questions [simp]: "ai_questions (preSave now offsetChange d) = ai_questions d"
  by (simp add: preSave_def Let_def)

lemma preSave_cacheKey [simp]:
  "cacheKey (preSave now offsetChange d) = derive_cacheKey (ai_category d) (ai_difficulty d) now"
  by (simp add: preSave_def Let_def)

lemma AIQuestion_save_Inr:
  assumes "AIQuestion_save store now offsetChange d = Inr (saved, store')"
  shows "aiQuestionSchema_valid d
     \<and> saved = (preSave now offsetChange d)\<lparr>createdAt := now, updatedAt := now\<rparr>
     \<and> store' = store @ [saved]
     \<and> cacheKey saved \<notin> set (map cacheKey store)"
  using assms by (auto simp: AIQuestion_save_def Let_def split: if_splits)

lemma AIQuestion_save_rejects:
  assumes "\<not> well_formed_set (ai_questions d)"
  shows "AIQuestion_save store now offsetChange d = Inl ValidationError"
  using assms schema_valid_well_formed [of d] by (auto simp: AIQuestion_save_def)

text \<open>
  The document that \<open>cacheQuestions\<close> constructs has neither of the two required fields
  that only the hooks would set, and the hooks run after the validation: the save is
  refused for every argument, and nothing is written.
\<close>

lemma cacheQuestions_always_fails:
  "cacheQuestions store now offsetChange qs cat diff metrics prompt
     = (Inl FailedToCacheQuestions, store)"
  by (simp add: cacheQuestions_def AIQuestion_save_def aiQuestionSchema_valid_def)

lemma incrementUsage_keys [simp]:
  "map cacheKey (incrementUsage store now key) = map cacheKey store"
  by (induction store) auto

lemma incrementUsage_length [simp]:
  "length (incrementUsage store now key) = length store"
  by (induction store) auto


lemma getCachedQuestions_keys:
  "map cacheKey (snd (getCachedQuestions store now cat diff)) = map cacheKey store"
  by (simp add: getCachedQuestions_def split: option.splits)



text \<open>
  What \<open>generateQuestions\<close> can answer: a set served by the durable tier, a set served by
  the fast tier, or the failure. A set that has just been generated is never returned,
  and the durable store is left as the lookup left it.
\<close>

lemma generateQuestions_cases:
  "snd (generateQuestions store t t' offsetChange redis completion prompt cat diff n)
     = snd (getCachedQuestions store t cat diff)
   \<and> (fst (generateQuestions store t t' offsetChange redis completion prompt cat diff n)
        = Inl GenerationFailed
      \<or> (\<exists>cached. fst (getCachedQuestions store t cat diff) = Some cached
            \<and> n \<le> length cached
            \<and> fst (generateQuestions store t t' offsetChange redis completion prompt cat diff n)
                 = Inr (take n cached))
      \<or> (\<exists>r. redis = Some r
            \<and> fst (generateQuestions store t t' offsetChange redis completion prompt cat diff n)
                 = Inr r))"
proof -
  obtain c store1 where g: "getCachedQuestions store t cat diff = (c, store1)"
    by (cases "getCachedQuestions store t cat diff")
  show ?thesis
    by (auto simp: generateQuestions_def Let_def g cacheQuestions_always_fails
        split: option.splits)
qed

lemma generateQuestions_miss_fails:
  assumes "getCachedQuestions store t cat diff = (None, store)"
  shows "generateQuestions store t t' offsetChange None completion prompt cat diff n
           = (Inl GenerationFailed, store)"
  by (auto simp: generateQuestions_def Let_def assms cacheQuestions_always_fails
      split: option.splits)

lemma ex_document_saved:
  "AIQuestion_save [] 1730000000000 0 (ex_document ''a'')
     = Inr (ex_entry ''science'' 1730000000000, [ex_entry ''science'' 1730000000000])"
  by (simp add: AIQuestion_save_def ex_document_def ex_entry_def ex_iquestion_def ex_prompt_def
      cache_defs)

subsection \<open>Validation before persistence\<close>

text \<open>
  Claim C7. A question set reaches the durable store only as a document whose questions
  each have exactly 4 non-empty options and a correct answer among A, B, C, D, and whose
  number of questions is between 1 and 20: whenever the save of a document succeeds, the
  store has grown by that document and its question set is well formed. The checks run
  on the set as the schema casts it (the answer label trimmed and upper-cased). A set
  that fails one of them is refused: the save answers a validation error,
  \<open>cacheQuestions\<close> throws and leaves the store as it was, and \<open>generateQuestions\<close>,
  when it has generated such a set, answers \<open>Failed to generate questions\<close> with no entry
  added.
\<close>

theorem only_valid_question_sets_are_persisted:
  "(\<forall>saved store'. AIQuestion_save store now offsetChange d = Inr (saved, store') \<longrightarrow>
       store' = store @ [saved] \<and> ai_questions saved = ai_questions d
       \<and> well_formed_set (ai_questions saved))
   \<and> (\<not> well_formed_set (ai_questions d) \<longrightarrow>
         AIQuestion_save store now offsetChange d = Inl ValidationError)
   \<and> (\<not> well_formed_set (map cast_question qs) \<longrightarrow>
         cacheQuestions store now offsetChange qs cat diff metrics prompt
           = (Inl FailedToCacheQuestions, store)
       \<and> map cacheKey
            (snd (generateQuestions store t now offsetChange None (Some (qs, tokens)) prompt cat diff n))
           = map cacheKey store
       \<and> (fst (generateQuestions store t now offsetChange None (Some (qs, tokens)) prompt cat diff n)
             = Inl GenerationFailed
           \<or> (\<exists>cached. fst (getCachedQuestions store t cat diff) = Some cached
                 \<and> n \<le> length cached
                 \<and> fst (generateQuestions store t now offsetChange None (Some (qs, tokens)) prompt
                          cat diff n)
                      = Inr (take n cached))))"
proof -
  have ok: "store' = store @ [saved] \<and> ai_questions saved = ai_questions d
       \<and> well_formed_set (ai_questions saved)"
    if "AIQuestion_save store now offsetChange d = Inr (saved, store')" for saved store'
    using AIQuestion_save_Inr [OF that] schema_valid_well_formed [of d] by simp
  have keys: "map cacheKey
       (snd (generateQuestions store t now offsetChange None (Some (qs, tokens)) prompt cat diff n))
       = map cacheKey store"
    using generateQuestions_cases
            [of store t now offsetChange None "Some (qs, tokens)" prompt cat diff n]
    by (simp add: getCachedQuestions_keys)
  have res: "fst (generateQuestions store t now offsetChange None (Some (qs, tokens)) prompt cat diff n)
             = Inl GenerationFailed
           \<or> (\<exists>cached. fst (getCachedQuestions store t cat diff) = Some cached
                 \<and> n \<le> length cached
                 \<and> fst (generateQuestions store t now offsetChange None (Some (qs, tokens)) prompt
                          cat diff n)
                      = Inr (take n cached))"
    using generateQuestions_cases
            [of store t now offsetChange None "Some (qs, tokens)" prompt cat diff n]
    by auto
  show ?thesis
    using ok keys res AIQuestion_save_rejects [of d store now offsetChange]
      cacheQuestions_always_fails [of store now offsetChange qs cat diff metrics prompt]
    by blast
qed

theorem only_valid_question_sets_are_persisted_witness:
  "AIQuestion_save [] 1730000000000 0 (ex_document ''a'')
     = Inr (ex_entry ''science'' 1730000000000, [ex_entry ''science'' 1730000000000])
   \<and> well_formed_set (ai_questions (ex_entry ''science'' 1730000000000))
   \<and> \<not> well_formed_set (ai_questions (ex_document ''E''))
   \<and> AIQuestion_save [] 1730000000000 0 (ex_document ''E'') = Inl ValidationError
   \<and> \<not> well_formed_set (map cast_question [ex_iquestion ''E''])
   \<and> cacheQuestions [] 1730000000000 0 [ex_iquestion ''E''] ''science'' ''easy''
        \<lparr> m_tokensUsed = 900, m_responseTime = 1200, m_cost = 0, m_model = ''gpt-3.5-turbo'' \<rparr>
        ex_prompt
       = (Inl FailedToCacheQuestions, [])
   \<and> generateQuestions [] 1729999990000 1730000000000 0 None (Some ([ex_iquestion ''E''], 900))
        ex_prompt ''science'' ''easy'' 5
       = (Inl GenerationFailed, [])"
proof -
  let ?m = "\<lparr> m_tokensUsed = 900, m_responseTime = 1200, m_cost = 0,
              m_model = ''gpt-3.5-turbo'' \<rparr>"
  have bad: "\<not> well_formed_set (map cast_question [ex_iquestion ''E''])"
    by (simp add: well_formed_set_def well_formed_question_def cast_question_def ex_iquestion_def
        trim_def isWhiteSpace_def toUpperCase_def toUpperCase_char_def)
  have bad': "\<not> well_formed_set (ai_questions (ex_document ''E''))"
    using bad by (simp add: ex_document_def)
  have miss: "getCachedQuestions [] 1729999990000 ''science'' ''easy'' = (None, [])"
    by (simp add: getCachedQuestions_def)
  note t1 = only_valid_question_sets_are_persisted
      [of "[]" 1730000000000 0 "ex_document ''a''" "[ex_iquestion ''E'']" "''science''" "''easy''"
          ?m ex_prompt 1729999990000 900 5]
  note t2 = only_valid_question_sets_are_persisted
      [of "[]" 1730000000000 0 "ex_document ''E''" "[ex_iquestion ''E'']" "''science''" "''easy''"
          ?m ex_prompt 1729999990000 900 5]
  have good: "well_formed_set (ai_questions (ex_entry ''science'' 1730000000000))"
    using t1 ex_document_saved by blast
  have refused: "AIQuestion_save [] 1730000000000 0 (ex_document ''E'') = Inl ValidationError"
    using t2 bad' by blast
  have thrown: "cacheQuestions [] 1730000000000 0 [ex_iquestion ''E''] ''science'' ''easy'' ?m
        ex_prompt = (Inl FailedToCacheQuestions, [])"
    using t1 bad by blast
  have "fst (generateQuestions [] 1729999990000 1730000000000 0 None
          (Some ([ex_iquestion ''E''], 900)) ex_prompt ''science'' ''easy'' 5) = Inl GenerationFailed"
    using t1 bad by (simp add: miss)
  moreover have "snd (generateQuestions [] 1729999990000 1730000000000 0 None
          (Some ([ex_iquestion ''E''], 900)) ex_prompt ''science'' ''easy'' 5) = []"
    using t1 bad by simp
  ultimately have gen: "generateQuestions [] 1729999990000 1730000000000 0 None
          (Some ([ex_iquestion ''E''], 900)) ex_prompt ''science'' ''easy'' 5
       = (Inl GenerationFailed, [])"
    by (simp add: prod_eq_iff)
  show ?thesis
    by (intro conjI) (fact ex_document_saved good bad' refused bad thrown gen)+
qed

subsection \<open>The durable cache key\<close>

lemma hourBucket_seconds: "hourBucket now = (now div 1000) div 3600"
  by (simp add: hourBucket_def div_mult2_eq [symmetric])

text \<open>
  The key the hook derives for a document that is saved, and the unique index: a second
  document of the same category and difficulty saved in the same hour bucket is refused.
\<close>

lemma AIQuestion_save_key:
  assumes "AIQuestion_save store now offsetChange d = Inr (saved, store')"
  shows "cacheKey saved
     = ''ai_questions:'' @ ai_category d @ '':'' @ ai_difficulty d @ '':''
         @ string_of_nat ((now div 1000) div 3600)"
  using AIQuestion_save_Inr [OF assms] by (simp add: derive_cacheKey_def hourBucket_seconds)

lemma AIQuestion_save_same_bucket_collides:
  assumes first: "AIQuestion_save store now1 oc1 d1 = Inr (saved, store')"
    and bucket: "hourBucket now2 = hourBucket now1"
    and same: "ai_category d2 = ai_category d1" "ai_difficulty d2 = ai_difficulty d1"
  shows "\<exists>e. AIQuestion_save store' now2 oc2 d2 = Inl e"
proof -
  have "cacheKey saved = derive_cacheKey (ai_category d1) (ai_difficulty d1) now1"
      and "store' = store @ [saved]"
    using AIQuestion_save_Inr [OF first] by simp_all
  then show ?thesis
    using bucket same by (simp add: AIQuestion_save_def Let_def derive_cacheKey_def)
qed

lemma ex_set_well_formed: "well_formed_set (map cast_question [ex_iquestion ''A''])"
  by (simp add: well_formed_set_def well_formed_question_def cast_question_def ex_iquestion_def
      trim_def isWhiteSpace_def toUpperCase_def toUpperCase_char_def)

text \<open>
  Claim C8, evaluated on the code. Two calls of \<open>generateQuestions\<close> for science, easy,
  one question, 15 minutes apart in the same hour bucket (480555), on an empty durable
  store and an empty fast tier, each with a completion that parses into the same
  well-formed set: neither call returns a question set, both answer
  \<open>Failed to generate questions\<close>, and the durable store is still empty after both, so
  no entry and no cache key exists. The set is not the obstacle: a document of that set
  that is given a cache key and an expiry when it is constructed is saved, under the key
  \<open>ai_questions:science:easy:480555\<close>. The save inside \<open>cacheQuestions\<close> fails on the
  required \<open>cacheKey\<close> and \<open>expiresAt\<close>, which only the pre-save hook would set.
\<close>

theorem generateQuestions_same_bucket_returns_no_set:
  "''science'' \<in> set categories \<and> ''easy'' \<in> set difficulties
   \<and> (1730000000000 div 1000) div 3600 = (480555 :: nat)
   \<and> (1730000900000 div 1000) div 3600 = (480555 :: nat)
   \<and> ai_questions (ex_document ''A'') = map cast_question [ex_iquestion ''A'']
   \<and> AIQuestion_save [] 1730000000000 0 (ex_document ''A'')
       = Inr (ex_entry ''science'' 1730000000000, [ex_entry ''science'' 1730000000000])
   \<and> cacheKey (ex_entry ''science'' 1730000000000) = ''ai_questions:science:easy:480555''
   \<and> generateQuestions [] 1729999998800 1730000000000 0 None (Some ([ex_iquestion ''A''], 900))
        ex_prompt ''science'' ''easy'' 1
       = (Inl GenerationFailed, [])
   \<and> generateQuestions [] 1730000898800 1730000900000 0 None (Some ([ex_iquestion ''A''], 900))
        ex_prompt ''science'' ''easy'' 1
       = (Inl GenerationFailed, [])"
proof -
  have miss: "getCachedQuestions [] t ''science'' ''easy'' = (None, [])" for t
    by (simp add: getCachedQuestions_def)
  have saved: "AIQuestion_save [] 1730000000000 0 (ex_document ''A'')
       = Inr (ex_entry ''science'' 1730000000000, [ex_entry ''science'' 1730000000000])"
    by (simp add: AIQuestion_save_def ex_document_def ex_entry_def ex_iquestion_def ex_prompt_def
        cache_defs)
  have key: "cacheKey (ex_entry ''science'' 1730000000000) = ''ai_questions:science:easy:480555''"
    by (simp add: entry_defs)
  show ?thesis
    using saved key
    by (simp add: generateQuestions_miss_fails [OF miss] categories_def difficulties_def
        ex_document_def)
qed

subsection \<open>Invalidation and expiry\<close>









end
